theory Spec2Isabelle
  imports Main "HOL-Library.Word"
begin

section \<open>The issuance-record store of sa/precertificates.go\<close>

text \<open>
  The theory embeds the three operations of \<^verbatim>\<open>sa/precertificates.go\<close>
  (\<^verbatim>\<open>AddSerial\<close>, \<^verbatim>\<open>AddPrecertificate\<close>, \<^verbatim>\<open>GetPrecertificate\<close>) as functions on an
  explicit store: the relational tables are lists of rows, a call takes the store and
  returns its result together with the store it leaves behind, and every
  \<^verbatim>\<open>return nil, err\<close> of the Go code is an \<open>Inl\<close> branch.
\<close>

subsection \<open>Scalars, time, errors\<close>

type_synonym byte = "8 word"
type_synonym int64 = "64 word"

text \<open>A \<^verbatim>\<open>time.Time\<close>, as an instant: nanoseconds relative to the Unix epoch.\<close>

type_synonym time = int

text \<open>\<^verbatim>\<open>time.Unix(sec, nsec)\<close>; the source only calls it as \<^verbatim>\<open>time.Unix(0, n)\<close>.\<close>

definition time_Unix :: "int64 \<Rightarrow> int64 \<Rightarrow> time" where
  "time_Unix sec nsec = sint sec * 1000000000 + sint nsec"

text \<open>\<^verbatim>\<open>time.Time{}\<close>: the zero time, 1 January of year 1, 00:00:00 UTC.\<close>

definition zeroTime :: time where
  "zeroTime = - 62135596800000000000"

text \<open>
  The errors the three operations can return. A formatted message is kept as its format
  string and its arguments, so that nothing depends on how \<^verbatim>\<open>%q\<close> renders.
  \<^item> \<open>errIncompleteRequest\<close>: the package's \<^verbatim>\<open>errIncompleteRequest\<close> value;
  \<^item> \<open>DuplicateError\<close>, \<open>NotFoundError\<close>: \<^verbatim>\<open>berrors.DuplicateError\<close>, \<^verbatim>\<open>berrors.NotFoundError\<close>;
  \<^item> \<open>Errorf\<close>: an error made by \<^verbatim>\<open>fmt.Errorf\<close>;
  \<^item> \<open>X509Error\<close>: the error \<^verbatim>\<open>x509.ParseCertificate\<close> returned (the specification files it
    under MalformedInput / ParseError);
  \<^item> \<open>NoRows\<close>: the storage layer's "no rows" error, the one \<^verbatim>\<open>db.IsNoRows\<close> recognises;
  \<^item> \<open>StorageError\<close>: any other error of the storage layer;
  \<^item> \<open>NilDereference\<close>: the run-time panic of reading a field through a nil request.
\<close>

datatype error =
    errIncompleteRequest
  | DuplicateError string "string list"
  | NotFoundError string "string list"
  | Errorf string "string list"
  | X509Error string
  | NoRows
  | StorageError string
  | NilDereference

text \<open>\<^verbatim>\<open>emptypb.Empty\<close>, the acknowledgement without payload.\<close>

datatype Empty = Empty

subsection \<open>Requests and replies\<close>

record AddSerialRequest =
  asr_Serial :: string
  asr_RegID :: int64
  asr_Created :: int64
  asr_Expires :: int64

record AddCertificateRequest =
  acr_Der :: "byte list"
  acr_RegID :: int64
  acr_Issued :: int64
  acr_IssuerID :: int64
  acr_Ocsp :: "byte list"

record SerialRequest =
  sr_Serial :: string

text \<open>
  \<^verbatim>\<open>corepb.Certificate\<close>, with the fields the specification lists for the caller-facing
  record: DER, registration ID, serial, issued and expiry times.
\<close>

record CertificatePB =
  pb_RegistrationID :: int64
  pb_Serial :: string
  pb_Der :: "byte list"
  pb_Issued :: time
  pb_Expires :: time

subsection \<open>The parsed certificate\<close>

text \<open>The fields of \<^verbatim>\<open>x509.Certificate\<close> that the issuance path can read.\<close>

record Certificate =
  SerialNumber :: int
  NotBefore :: time
  NotAfter :: time
  DNSNames :: "string list"
  Subject_CommonName :: string
  RawSubjectPublicKeyInfo :: "byte list"

subsection \<open>Tables\<close>

record recordedSerialModel =
  rs_Serial :: string
  rs_RegistrationID :: int64
  rs_Created :: time
  rs_Expires :: time

record precertificateModel =
  pc_Serial :: string
  pc_RegistrationID :: int64
  pc_DER :: "byte list"
  pc_Issued :: time
  pc_Expires :: time

text \<open>
  The status row is inserted through a statement built at run time from a column list
  and a map of named arguments, so a row of \<open>certificateStatus\<close> is kept as the source
  builds it: a list of (column, value) pairs.
\<close>

datatype sqlval =
    VStr string
  | VTime time
  | VInt int
  | VBytes "byte list"
  | VBool bool

type_synonym sqlrow = "(string \<times> sqlval) list"

record issuedNameModel =
  in_Name :: string
  in_Serial :: string
  in_IssuedAt :: time
  in_IsRenewal :: bool

record keyHashModel =
  kh_Fingerprint :: "byte list"
  kh_Serial :: string
  kh_IssuedAt :: time

record store =
  serials :: "recordedSerialModel list"
  precertificates :: "precertificateModel list"
  certificateStatus :: "sqlrow list"
  fqdnSets :: "string list list"
  issuedNames :: "issuedNameModel list"
  keyHashToSerial :: "keyHashModel list"

subsection \<open>What the store depends on\<close>

text \<open>
  The storage operations of the three functions. A fault plan names, for each of them, the
  error the storage layer reports there, if any (a lost connection, a timeout, an injected
  fault); \<open>InsertIssuedName i\<close> is the insert for the \<open>i\<close>-th DNS name.
\<close>

datatype dbop =
    InsertSerial
  | SelectPrecertCount
  | InsertPrecert
  | ExecCertStatus
  | SelectFQDNSet
  | InsertIssuedName nat
  | InsertKeyHash
  | SelectPrecert

text \<open>
  The collaborators of \<^verbatim>\<open>SQLStorageAuthority\<close> that are not part of
  \<^verbatim>\<open>sa/precertificates.go\<close>, as parameters:
  \<^item> \<open>ParseCertificate\<close>: \<^verbatim>\<open>x509.ParseCertificate\<close> (the Go standard library), returning the
    parsed certificate or the message of its error;
  \<^item> \<open>SerialToString\<close>, \<open>ValidSerial\<close>: \<^verbatim>\<open>core.SerialToString\<close> and \<^verbatim>\<open>core.ValidSerial\<close>;
  \<^item> \<open>certStatusFields\<close>: the column list \<^verbatim>\<open>certStatusFields()\<close> returns;
  \<^item> \<open>clk_Now\<close>: what \<^verbatim>\<open>ssa.clk.Now()\<close> returns during the call;
  \<^item> \<open>keyFingerprint\<close>: the fingerprint of a public key;
  \<^item> \<open>fault\<close>: the fault plan of the storage layer.
\<close>

record env =
  ParseCertificate :: "byte list \<Rightarrow> string + Certificate"
  SerialToString :: "int \<Rightarrow> string"
  ValidSerial :: "string \<Rightarrow> bool"
  certStatusFields :: "string list"
  clk_Now :: time
  keyFingerprint :: "byte list \<Rightarrow> byte list"
  fault :: "dbop \<Rightarrow> string option"

subsection \<open>Required fields\<close>

text \<open>The values \<^verbatim>\<open>core.IsAnyNilOrZero\<close> is called with here: byte slices, int64s, strings.\<close>

datatype goval =
    GBytes "byte list"
  | GInt64 int64
  | GString string

fun isZeroVal :: "goval \<Rightarrow> bool" where
  "isZeroVal (GBytes b) = (b = [])"
| "isZeroVal (GInt64 n) = (n = 0)"
| "isZeroVal (GString s) = (s = [])"

text \<open>
  Modelled from the spec: \<^verbatim>\<open>core.IsAnyNilOrZero\<close> is not in the source files. By the
  specification a required input is missing when it is absent or zero-valued; a nil and
  an empty byte slice are both the empty list here.
\<close>

definition IsAnyNilOrZero :: "goval list \<Rightarrow> bool" where
  "IsAnyNilOrZero vals = list_ex isZeroVal vals"

subsection \<open>AddSerial\<close>

text \<open>
  Modelled from the spec: the table of serials and its schema are not in the source
  files. By the specification the storage layer keeps \<open>serial\<close> unique, and the insert
  fails with a storage-layer error (a constraint violation) if the serial already exists.
\<close>

definition Insert_serial :: "env \<Rightarrow> store \<Rightarrow> recordedSerialModel \<Rightarrow> error + store" where
  "Insert_serial env db row =
     (case fault env InsertSerial of
        Some m \<Rightarrow> Inl (StorageError m)
      | None \<Rightarrow>
          if list_ex (\<lambda>r. rs_Serial r = rs_Serial row) (serials db)
          then Inl (StorageError ''duplicate entry for key serial'')
          else Inr (db\<lparr>serials := serials db @ [row]\<rparr>))"

definition AddSerial :: "env \<Rightarrow> store \<Rightarrow> AddSerialRequest option \<Rightarrow> (error + Empty) \<times> store" where
  "AddSerial env db reqp =
     (case reqp of
        None \<Rightarrow> (Inl NilDereference, db)
      | Some req \<Rightarrow>
          if IsAnyNilOrZero [GInt64 (asr_Created req), GInt64 (asr_Expires req),
               GString (asr_Serial req), GInt64 (asr_RegID req)]
          then (Inl errIncompleteRequest, db)
          else
            (case Insert_serial env db
                    \<lparr>rs_Serial = asr_Serial req,
                     rs_RegistrationID = asr_RegID req,
                     rs_Created = time_Unix 0 (asr_Created req),
                     rs_Expires = time_Unix 0 (asr_Expires req)\<rparr> of
               Inl err \<Rightarrow> (Inl err, db)
             | Inr db' \<Rightarrow> (Inr Empty, db')))"

subsection \<open>The issuance transaction\<close>

text \<open>
  Modelled from the spec: \<^verbatim>\<open>db.WithTransaction\<close> is not in the source files. By the
  specification the steps run as one atomic transaction: when the function it is given
  fails, everything it wrote is rolled back and its error is surfaced unchanged; when it
  returns, its writes are committed.
\<close>

definition WithTransaction :: "store \<Rightarrow> (store \<Rightarrow> error + store) \<Rightarrow> (error + unit) \<times> store" where
  "WithTransaction db f =
     (case f db of
        Inl err \<Rightarrow> (Inl err, db)
      | Inr tx \<Rightarrow> (Inr (), tx))"

text \<open>\<^verbatim>\<open>SELECT count(1) as count FROM precertificates WHERE serial=?\<close>\<close>

definition SelectOne_count :: "env \<Rightarrow> store \<Rightarrow> string \<Rightarrow> error + int" where
  "SelectOne_count env tx serialHex =
     (case fault env SelectPrecertCount of
        Some m \<Rightarrow> Inl (StorageError m)
      | None \<Rightarrow> Inr (int (length (filter (\<lambda>r. pc_Serial r = serialHex) (precertificates tx)))))"

definition Insert_precert :: "env \<Rightarrow> store \<Rightarrow> precertificateModel \<Rightarrow> error + store" where
  "Insert_precert env tx row =
     (case fault env InsertPrecert of
        Some m \<Rightarrow> Inl (StorageError m)
      | None \<Rightarrow> Inr (tx\<lparr>precertificates := precertificates tx @ [row]\<rparr>))"

text \<open>
  The named parameters of the \<^verbatim>\<open>INSERT\<close>: the placeholder \<^verbatim>\<open>:name\<close> of each column is
  bound to the value the argument map holds under \<^verbatim>\<open>name\<close>. A placeholder with no
  argument cannot be bound.
\<close>

fun bindNamed :: "sqlrow \<Rightarrow> string list \<Rightarrow> string list \<Rightarrow> sqlrow option" where
  "bindNamed args [] [] = Some []"
| "bindNamed args (c # cs) (p # ps) =
     (case map_of args (drop 1 p) of
        None \<Rightarrow> None
      | Some v \<Rightarrow>
          (case bindNamed args cs ps of
             None \<Rightarrow> None
           | Some r \<Rightarrow> Some ((c, v) # r)))"
| "bindNamed args cs ps = None"

text \<open>
  \<^verbatim>\<open>INSERT INTO certificateStatus (columns) VALUES (placeholders)\<close>, executed with the
  argument map.
\<close>

definition Exec_insert_certificateStatus ::
    "env \<Rightarrow> store \<Rightarrow> string list \<Rightarrow> string list \<Rightarrow> sqlrow \<Rightarrow> error + store" where
  "Exec_insert_certificateStatus env tx columns placeholders args =
     (case fault env ExecCertStatus of
        Some m \<Rightarrow> Inl (StorageError m)
      | None \<Rightarrow>
          (case bindNamed args columns placeholders of
             None \<Rightarrow> Inl (StorageError ''missing named parameter'')
           | Some row \<Rightarrow> Inr (tx\<lparr>certificateStatus := certificateStatus tx @ [row]\<rparr>)))"

text \<open>Modelled from the spec: \<^verbatim>\<open>core.OCSPStatusGood\<close> is not in the source files; the initial status is \<open>good\<close>.\<close>

definition OCSPStatusGood :: string where
  "OCSPStatusGood = ''good''"

text \<open>
  Lower case of an ASCII letter (\<open>A\<close> to \<open>Z\<close>, codes 65 to 90: bit 5 is set), for the
  case-insensitive comparison of names.
\<close>

fun lowerChar :: "char \<Rightarrow> char" where
  "lowerChar (Char b0 b1 b2 b3 b4 b5 b6 b7) =
     (if (65::nat) \<le> of_char (Char b0 b1 b2 b3 b4 b5 b6 b7) \<and>
         of_char (Char b0 b1 b2 b3 b4 b5 b6 b7) \<le> (90::nat)
      then Char b0 b1 b2 b3 b4 True b6 b7
      else Char b0 b1 b2 b3 b4 b5 b6 b7)"

definition lowerName :: "string \<Rightarrow> string" where
  "lowerName s = map lowerChar s"

definition sameNameSet :: "string list \<Rightarrow> string list \<Rightarrow> bool" where
  "sameNameSet a b = (set (map lowerName a) = set (map lowerName b))"

text \<open>
  Modelled from the spec: \<^verbatim>\<open>checkFQDNSetExists\<close> is not in the source files. By the
  specification it answers whether a prior issuance exists whose recorded name set is
  exactly equal, compared case-insensitively, to the given names.
\<close>

definition checkFQDNSetExists :: "env \<Rightarrow> store \<Rightarrow> string list \<Rightarrow> error + bool" where
  "checkFQDNSetExists env tx names =
     (case fault env SelectFQDNSet of
        Some m \<Rightarrow> Inl (StorageError m)
      | None \<Rightarrow> Inr (list_ex (\<lambda>prior. sameNameSet prior names) (fqdnSets tx)))"

text \<open>The insert of one IssuedNameRecord per DNS name, in order; \<open>i\<close> counts the names done.\<close>

fun insertIssuedNames ::
    "env \<Rightarrow> string \<Rightarrow> time \<Rightarrow> bool \<Rightarrow> nat \<Rightarrow> string list \<Rightarrow> store \<Rightarrow> error + store" where
  "insertIssuedNames env serial at isRenewal i [] tx = Inr tx"
| "insertIssuedNames env serial at isRenewal i (name # names) tx =
     (case fault env (InsertIssuedName i) of
        Some m \<Rightarrow> Inl (StorageError m)
      | None \<Rightarrow>
          insertIssuedNames env serial at isRenewal (Suc i) names
            (tx\<lparr>issuedNames := issuedNames tx @
                  [\<lparr>in_Name = name, in_Serial = serial, in_IssuedAt = at,
                    in_IsRenewal = isRenewal\<rparr>]\<rparr>))"

text \<open>
  Modelled from the spec: \<^verbatim>\<open>addIssuedNames\<close> is not in the source files. By the
  specification it inserts, for each DNS name, an IssuedNameRecord with the computed
  renewal flag, and the name-set index is mutated as a side effect of recording the issued
  names. The function receives the parsed certificate and the flag only, so the time it
  records is taken from the certificate (its not-before time).
\<close>

definition addIssuedNames :: "env \<Rightarrow> store \<Rightarrow> Certificate \<Rightarrow> bool \<Rightarrow> error + store" where
  "addIssuedNames env tx cert isRenewal =
     (case insertIssuedNames env (SerialToString env (SerialNumber cert)) (NotBefore cert)
             isRenewal 0 (DNSNames cert) tx of
        Inl err \<Rightarrow> Inl err
      | Inr tx' \<Rightarrow> Inr (tx'\<lparr>fqdnSets := fqdnSets tx' @ [DNSNames cert]\<rparr>))"

text \<open>
  Modelled from the spec: \<^verbatim>\<open>addKeyHash\<close> is not in the source files. By the
  specification it computes a fingerprint of the certificate's public key and inserts a
  KeyFingerprintRecord for the serial.
\<close>

definition addKeyHash :: "env \<Rightarrow> store \<Rightarrow> Certificate \<Rightarrow> error + store" where
  "addKeyHash env tx cert =
     (case fault env InsertKeyHash of
        Some m \<Rightarrow> Inl (StorageError m)
      | None \<Rightarrow>
          Inr (tx\<lparr>keyHashToSerial := keyHashToSerial tx @
                 [\<lparr>kh_Fingerprint = keyFingerprint env (RawSubjectPublicKeyInfo cert),
                   kh_Serial = SerialToString env (SerialNumber cert),
                   kh_IssuedAt = NotBefore cert\<rparr>]\<rparr>))"

text \<open>The argument map of the status insert (lines 80 to 91 of the source).\<close>

definition certStatusArgs ::
    "env \<Rightarrow> AddCertificateRequest \<Rightarrow> Certificate \<Rightarrow> string \<Rightarrow> sqlrow" where
  "certStatusArgs env req parsed serialHex =
     [(''serial'', VStr serialHex),
      (''status'', VStr OCSPStatusGood),
      (''ocspLastUpdated'', VTime (clk_Now env)),
      (''revokedDate'', VTime zeroTime),
      (''revokedReason'', VInt 0),
      (''lastExpirationNagSent'', VTime zeroTime),
      (''ocspResponse'', VBytes (acr_Ocsp req)),
      (''notAfter'', VTime (NotAfter parsed)),
      (''isExpired'', VBool False),
      (''issuerID'', VInt (sint (acr_IssuerID req)))]"

text \<open>The function handed to \<^verbatim>\<open>db.WithTransaction\<close> (lines 60 to 125 of the source).\<close>

definition AddPrecertificate_tx ::
    "env \<Rightarrow> AddCertificateRequest \<Rightarrow> Certificate \<Rightarrow> string \<Rightarrow> precertificateModel \<Rightarrow>
     store \<Rightarrow> error + store" where
  "AddPrecertificate_tx env req parsed serialHex preCertModel txWithCtx =
     (case SelectOne_count env txWithCtx serialHex of
        Inl err \<Rightarrow> Inl err
      | Inr count \<Rightarrow>
          if count > 0 then Inl (DuplicateError ''cannot add a duplicate cert'' [])
          else
            (case Insert_precert env txWithCtx preCertModel of
               Inl err \<Rightarrow> Inl err
             | Inr tx1 \<Rightarrow>
                 let fields = certStatusFields env;
                     fieldNames = map (\<lambda>fieldName. '':'' @ fieldName) fields;
                     args = certStatusArgs env req parsed serialHex
                 in
                   if length args > length fields
                   then Inl (Errorf ''too many arguments inserting row into certificateStatus'' [])
                   else
                     (case Exec_insert_certificateStatus env tx1 fields fieldNames args of
                        Inl err \<Rightarrow> Inl err
                      | Inr tx2 \<Rightarrow>
                          (case checkFQDNSetExists env tx2 (DNSNames parsed) of
                             Inl err \<Rightarrow> Inl err
                           | Inr isRenewal \<Rightarrow>
                               (case addIssuedNames env tx2 parsed isRenewal of
                                  Inl err \<Rightarrow> Inl err
                                | Inr tx3 \<Rightarrow>
                                    (case addKeyHash env tx3 parsed of
                                       Inl err \<Rightarrow> Inl err
                                     | Inr tx4 \<Rightarrow> Inr tx4))))))"

definition AddPrecertificate ::
    "env \<Rightarrow> store \<Rightarrow> AddCertificateRequest option \<Rightarrow> (error + Empty) \<times> store" where
  "AddPrecertificate env db reqp =
     (case reqp of
        None \<Rightarrow> (Inl NilDereference, db)
      | Some req \<Rightarrow>
          if IsAnyNilOrZero [GBytes (acr_Der req), GInt64 (acr_Issued req),
               GInt64 (acr_RegID req), GInt64 (acr_IssuerID req)]
          then (Inl errIncompleteRequest, db)
          else
            (case ParseCertificate env (acr_Der req) of
               Inl err \<Rightarrow> (Inl (X509Error err), db)
             | Inr parsed \<Rightarrow>
                 let issued = time_Unix 0 (acr_Issued req);
                     serialHex = SerialToString env (SerialNumber parsed);
                     preCertModel =
                       \<lparr>pc_Serial = serialHex,
                        pc_RegistrationID = acr_RegID req,
                        pc_DER = acr_Der req,
                        pc_Issued = issued,
                        pc_Expires = NotAfter parsed\<rparr>
                 in
                   (case WithTransaction db
                           (AddPrecertificate_tx env req parsed serialHex preCertModel) of
                      (Inl overallError, db') \<Rightarrow> (Inl overallError, db')
                    | (Inr u, db') \<Rightarrow> (Inr Empty, db'))))"

subsection \<open>GetPrecertificate\<close>

text \<open>
  Modelled from the spec: \<^verbatim>\<open>SelectPrecertificate\<close> is not in the source files. By the
  specification it looks up the Precertificate row of the serial, and the lookup of an
  absent row is what the caller turns into NotFound.
\<close>

definition SelectPrecertificate :: "env \<Rightarrow> store \<Rightarrow> string \<Rightarrow> error + precertificateModel" where
  "SelectPrecertificate env db serial =
     (case fault env SelectPrecert of
        Some m \<Rightarrow> Inl (StorageError m)
      | None \<Rightarrow>
          (case find (\<lambda>r. pc_Serial r = serial) (precertificates db) of
             None \<Rightarrow> Inl NoRows
           | Some r \<Rightarrow> Inr r))"

definition IsNoRows :: "error \<Rightarrow> bool" where
  "IsNoRows err = (err = NoRows)"

text \<open>
  Modelled from the spec: \<^verbatim>\<open>bgrpc.CertToPB\<close> is not in the source files. By the
  specification it translates the stored record into the caller-facing one, field by
  field.
\<close>

definition CertToPB :: "precertificateModel \<Rightarrow> CertificatePB" where
  "CertToPB cert =
     \<lparr>pb_RegistrationID = pc_RegistrationID cert,
      pb_Serial = pc_Serial cert,
      pb_Der = pc_DER cert,
      pb_Issued = pc_Issued cert,
      pb_Expires = pc_Expires cert\<rparr>"

definition GetPrecertificate :: "env \<Rightarrow> store \<Rightarrow> SerialRequest option \<Rightarrow> error + CertificatePB" where
  "GetPrecertificate env db reqp =
     (case reqp of
        None \<Rightarrow> Inl errIncompleteRequest
      | Some req \<Rightarrow>
          if sr_Serial req = [] then Inl errIncompleteRequest
          else if \<not> ValidSerial env (sr_Serial req)
          then Inl (Errorf ''Invalid precertificate serial %q'' [sr_Serial req])
          else
            (case SelectPrecertificate env db (sr_Serial req) of
               Inl err \<Rightarrow>
                 if IsNoRows err
                 then Inl (NotFoundError ''precertificate with serial %q not found'' [sr_Serial req])
                 else Inl err
             | Inr cert \<Rightarrow> Inr (CertToPB cert)))"

subsection \<open>Notions used in the statements\<close>

text \<open>The request passes the check of the required fields at the head of \<^verbatim>\<open>AddPrecertificate\<close>.\<close>

definition requiredPresent :: "AddCertificateRequest \<Rightarrow> bool" where
  "requiredPresent req =
     (\<not> IsAnyNilOrZero [GBytes (acr_Der req), GInt64 (acr_Issued req),
           GInt64 (acr_RegID req), GInt64 (acr_IssuerID req)])"

text \<open>The \<^verbatim>\<open>precertificateModel\<close> that \<^verbatim>\<open>AddPrecertificate\<close> builds before the transaction.\<close>

definition newPrecert :: "env \<Rightarrow> AddCertificateRequest \<Rightarrow> Certificate \<Rightarrow> precertificateModel" where
  "newPrecert env req parsed =
     \<lparr>pc_Serial = SerialToString env (SerialNumber parsed),
      pc_RegistrationID = acr_RegID req,
      pc_DER = acr_Der req,
      pc_Issued = time_Unix 0 (acr_Issued req),
      pc_Expires = NotAfter parsed\<rparr>"

text \<open>
  Modelled from the spec: \<^verbatim>\<open>certStatusFields()\<close> is not in the source files. By the
  specification's data model a CertificateStatusRecord has these ten fields; they are the
  columns of the status table's schema.
\<close>

definition statusColumns :: "string list" where
  "statusColumns =
     [''serial'', ''status'', ''ocspLastUpdated'', ''revokedDate'', ''revokedReason'',
      ''lastExpirationNagSent'', ''ocspResponse'', ''notAfter'', ''isExpired'', ''issuerID'']"

text \<open>
  The status row that the insert writes when every column of the schema has an argument:
  each column with the argument of its name.
\<close>

definition statusRow :: "env \<Rightarrow> AddCertificateRequest \<Rightarrow> Certificate \<Rightarrow> string \<Rightarrow> sqlrow" where
  "statusRow env req parsed serialHex =
     map (\<lambda>c. (c, the (map_of (certStatusArgs env req parsed serialHex) c))) (certStatusFields env)"

text \<open>The request passes the check of the required fields at the head of \<^verbatim>\<open>AddSerial\<close>.\<close>

definition serialRequestComplete :: "AddSerialRequest \<Rightarrow> bool" where
  "serialRequestComplete req =
     (\<not> IsAnyNilOrZero [GInt64 (asr_Created req), GInt64 (asr_Expires req),
           GString (asr_Serial req), GInt64 (asr_RegID req)])"

text \<open>The \<^verbatim>\<open>recordedSerialModel\<close> that \<^verbatim>\<open>AddSerial\<close> inserts.\<close>

definition newSerial :: "AddSerialRequest \<Rightarrow> recordedSerialModel" where
  "newSerial req =
     \<lparr>rs_Serial = asr_Serial req,
      rs_RegistrationID = asr_RegID req,
      rs_Created = time_Unix 0 (asr_Created req),
      rs_Expires = time_Unix 0 (asr_Expires req)\<rparr>"

text \<open>
  The same environment, except that every certificate the parser returns carries the
  Subject Common Name \<open>cn\<close>.
\<close>

definition withCommonName :: "string \<Rightarrow> env \<Rightarrow> env" where
  "withCommonName cn env =
     env\<lparr>ParseCertificate :=
           (\<lambda>der. case ParseCertificate env der of
                    Inl err \<Rightarrow> Inl err
                  | Inr cert \<Rightarrow> Inr (cert\<lparr>Subject_CommonName := cn\<rparr>))\<rparr>"

subsection \<open>A concrete environment for the examples\<close>

definition hexDigit :: "nat \<Rightarrow> char" where
  "hexDigit d = ''0123456789abcdef'' ! d"

text \<open>A serial as 36 hexadecimal digits (the low 16 bits, which is all the examples need).\<close>

definition serialDemo :: "int \<Rightarrow> string" where
  "serialDemo n = ''00000000000000000000000000000000'' @
     [hexDigit (nat n div 4096 mod 16), hexDigit (nat n div 256 mod 16),
      hexDigit (nat n div 16 mod 16), hexDigit (nat n mod 16)]"

definition validDemo :: "string \<Rightarrow> bool" where
  "validDemo s = (length s = 36 \<and> list_all (\<lambda>c. c \<in> set ''0123456789abcdef'') s)"

text \<open>
  Three certificates: \<open>certA\<close> for a.example and b.example; \<open>certB\<close>, a later one with
  another serial for the same two names in another order and case, and a common name
  that is not among its DNS names; \<open>certC\<close> for c.example.
\<close>

definition certA :: Certificate where
  "certA = \<lparr>SerialNumber = 10, NotBefore = 1700000000000000000,
     NotAfter = 1707776000000000000, DNSNames = [''a.example'', ''b.example''],
     Subject_CommonName = ''a.example'', RawSubjectPublicKeyInfo = [1, 2, 3]\<rparr>"

definition certB :: Certificate where
  "certB = \<lparr>SerialNumber = 11, NotBefore = 1700000100000000000,
     NotAfter = 1707776100000000000, DNSNames = [''B.Example'', ''a.example''],
     Subject_CommonName = ''zzz.example'', RawSubjectPublicKeyInfo = [1, 2, 3]\<rparr>"

definition certC :: Certificate where
  "certC = \<lparr>SerialNumber = 12, NotBefore = 1700000200000000000,
     NotAfter = 1707776200000000000, DNSNames = [''c.example''],
     Subject_CommonName = ''c.example'', RawSubjectPublicKeyInfo = [4, 5, 6]\<rparr>"

definition parseDemo :: "byte list \<Rightarrow> string + Certificate" where
  "parseDemo der =
     (if der = [48, 10] then Inr certA
      else if der = [48, 11] then Inr certB
      else if der = [48, 12] then Inr certC
      else Inl ''x509: malformed certificate'')"

definition env0 :: env where
  "env0 = \<lparr>ParseCertificate = parseDemo, SerialToString = serialDemo, ValidSerial = validDemo,
     certStatusFields = statusColumns, clk_Now = 1700000000500000000, keyFingerprint = rev,
     fault = (\<lambda>op. None)\<rparr>"

definition emptyStore :: store where
  "emptyStore = \<lparr>serials = [], precertificates = [], certificateStatus = [], fqdnSets = [],
     issuedNames = [], keyHashToSerial = []\<rparr>"

definition reqA :: AddCertificateRequest where
  "reqA = \<lparr>acr_Der = [48, 10], acr_RegID = 7, acr_Issued = 1700000000000000000,
     acr_IssuerID = 3, acr_Ocsp = [9, 9]\<rparr>"

definition reqB :: AddCertificateRequest where
  "reqB = \<lparr>acr_Der = [48, 11], acr_RegID = 7, acr_Issued = 1700000100000000000,
     acr_IssuerID = 3, acr_Ocsp = [9, 8]\<rparr>"

definition reqC :: AddCertificateRequest where
  "reqC = \<lparr>acr_Der = [48, 12], acr_RegID = 8, acr_Issued = 1700000200000000000,
     acr_IssuerID = 3, acr_Ocsp = [9, 7]\<rparr>"

text \<open>The store after the issuance of \<open>certA\<close> into the empty store.\<close>

definition storeA :: store where
  "storeA =
     \<lparr>serials = [],
      precertificates =
        [\<lparr>pc_Serial = ''00000000000000000000000000000000000a'', pc_RegistrationID = 7,
          pc_DER = [48, 10], pc_Issued = 1700000000000000000,
          pc_Expires = 1707776000000000000\<rparr>],
      certificateStatus =
        [[(''serial'', VStr ''00000000000000000000000000000000000a''),
          (''status'', VStr ''good''),
          (''ocspLastUpdated'', VTime 1700000000500000000),
          (''revokedDate'', VTime (- 62135596800000000000)),
          (''revokedReason'', VInt 0),
          (''lastExpirationNagSent'', VTime (- 62135596800000000000)),
          (''ocspResponse'', VBytes [9, 9]),
          (''notAfter'', VTime 1707776000000000000),
          (''isExpired'', VBool False),
          (''issuerID'', VInt 3)]],
      fqdnSets = [[''a.example'', ''b.example'']],
      issuedNames =
        [\<lparr>in_Name = ''a.example'', in_Serial = ''00000000000000000000000000000000000a'',
          in_IssuedAt = 1700000000000000000, in_IsRenewal = False\<rparr>,
         \<lparr>in_Name = ''b.example'', in_Serial = ''00000000000000000000000000000000000a'',
          in_IssuedAt = 1700000000000000000, in_IsRenewal = False\<rparr>],
      keyHashToSerial =
        [\<lparr>kh_Fingerprint = [3, 2, 1], kh_Serial = ''00000000000000000000000000000000000a'',
          kh_IssuedAt = 1700000000000000000\<rparr>]\<rparr>"

text \<open>The environment \<open>env0\<close> with a storage fault injected at the key-fingerprint insert.\<close>

definition envKeyFault :: env where
  "envKeyFault = env0\<lparr>fault := (\<lambda>op. if op = InsertKeyHash then Some ''injected fault'' else None)\<rparr>"

text \<open>The environment \<open>env0\<close> with a storage fault injected at the insert of a serial.\<close>

definition envSerialFault :: env where
  "envSerialFault = env0\<lparr>fault := (\<lambda>op. if op = InsertSerial then Some ''connection lost'' else None)\<rparr>"

text \<open>The environment \<open>env0\<close> with a status-table schema of two columns only.\<close>

definition envShort :: env where
  "envShort = env0\<lparr>certStatusFields := [''serial'', ''status'']\<rparr>"

text \<open>A request with a registration ID of zero and DER bytes that do not parse.\<close>

definition reqBad :: AddCertificateRequest where
  "reqBad = \<lparr>acr_Der = [255], acr_RegID = 0, acr_Issued = 1700000000000000000,
     acr_IssuerID = 3, acr_Ocsp = [9, 9]\<rparr>"

definition reqS :: AddSerialRequest where
  "reqS = \<lparr>asr_Serial = ''00000000000000000000000000000000000a'', asr_RegID = 7,
     asr_Created = 1700000000000000000, asr_Expires = 1707776000000000000\<rparr>"

text \<open>The store after the reservation \<open>reqS\<close> in the empty store.\<close>

definition storeS :: store where
  "storeS = emptyStore\<lparr>serials :=
     [\<lparr>rs_Serial = ''00000000000000000000000000000000000a'', rs_RegistrationID = 7,
       rs_Created = 1700000000000000000, rs_Expires = 1707776000000000000\<rparr>]\<rparr>"

section \<open>Properties\<close>

lemmas demo_defs =
  env0_def envKeyFault_def envSerialFault_def envShort_def emptyStore_def storeA_def storeS_def
  reqA_def reqB_def reqC_def reqBad_def reqS_def
  parseDemo_def certA_def certB_def certC_def
  serialDemo_def hexDigit_def validDemo_def statusColumns_def

lemmas op_defs =
  AddPrecertificate_def AddSerial_def GetPrecertificate_def IsAnyNilOrZero_def
  WithTransaction_def AddPrecertificate_tx_def SelectOne_count_def Insert_precert_def
  Insert_serial_def certStatusArgs_def Exec_insert_certificateStatus_def
  checkFQDNSetExists_def addIssuedNames_def addKeyHash_def SelectPrecertificate_def
  IsNoRows_def CertToPB_def sameNameSet_def lowerName_def
  zeroTime_def OCSPStatusGood_def time_Unix_def Let_def
  requiredPresent_def serialRequestComplete_def newPrecert_def newSerial_def

subsection \<open>The steps of the transaction\<close>

lemma insertIssuedNames_Inr:
  "insertIssuedNames env serial at ren i names tx = Inr tx' \<Longrightarrow>
   tx' = tx\<lparr>issuedNames := issuedNames tx @
           map (\<lambda>n. \<lparr>in_Name = n, in_Serial = serial, in_IssuedAt = at, in_IsRenewal = ren\<rparr>) names\<rparr>"
proof (induction names arbitrary: i tx)
  case Nil
  then show ?case by simp
next
  case (Cons n ns)
  from Cons.prems have step:
    "insertIssuedNames env serial at ren (Suc i) ns
       (tx\<lparr>issuedNames := issuedNames tx @
          [\<lparr>in_Name = n, in_Serial = serial, in_IssuedAt = at, in_IsRenewal = ren\<rparr>]\<rparr>) = Inr tx'"
    by (auto split: option.splits)
  from Cons.IH [OF step] show ?case by simp
qed

lemma insertIssuedNames_Inl:
  "insertIssuedNames env serial at ren i names tx = Inl e \<Longrightarrow>
   \<exists>k m. fault env (InsertIssuedName k) = Some m \<and> e = StorageError m"
proof (induction names arbitrary: i tx)
  case Nil
  then show ?case by simp
next
  case (Cons n ns)
  then show ?case by (fastforce split: option.splits)
qed

lemma bindNamed_Some:
  "bindNamed args cs (map ((#) p) cs) = Some row \<Longrightarrow>
   row = map (\<lambda>c. (c, the (map_of args c))) cs \<and> list_all (\<lambda>c. map_of args c \<noteq> None) cs"
proof (induction cs arbitrary: row)
  case Nil
  then show ?case by simp
next
  case (Cons c cs)
  from Cons.prems obtain v r where
    v: "map_of args c = Some v" and r: "bindNamed args cs (map ((#) p) cs) = Some r"
    and row: "row = (c, v) # r"
    by (auto split: option.splits)
  from Cons.IH [OF r] v row show ?case by simp
qed

lemma colon_append: "(@) '':'' = (#) CHR '':''"
  by (rule ext) simp

text \<open>What a committed transaction has written, and what it found on its way.\<close>

lemma AddPrecertificate_tx_Inr:
  assumes "AddPrecertificate_tx env req parsed serialHex pc tx = Inr tx'"
  shows "\<not> list_ex (\<lambda>r. pc_Serial r = serialHex) (precertificates tx) \<and>
         length (certStatusArgs env req parsed serialHex) \<le> length (certStatusFields env) \<and>
         list_all (\<lambda>c. map_of (certStatusArgs env req parsed serialHex) c \<noteq> None) (certStatusFields env) \<and>
         fault env SelectPrecertCount = None \<and> fault env InsertPrecert = None \<and>
         fault env ExecCertStatus = None \<and> fault env SelectFQDNSet = None \<and>
         fault env InsertKeyHash = None \<and>
         tx' = tx\<lparr>precertificates := precertificates tx @ [pc],
                   certificateStatus := certificateStatus tx @ [statusRow env req parsed serialHex],
                   issuedNames := issuedNames tx @
                       map (\<lambda>n. \<lparr>in_Name = n, in_Serial = SerialToString env (SerialNumber parsed),
                                 in_IssuedAt = NotBefore parsed,
                                 in_IsRenewal = list_ex (\<lambda>prior. sameNameSet prior (DNSNames parsed)) (fqdnSets tx)\<rparr>)
                           (DNSNames parsed),
                   fqdnSets := fqdnSets tx @ [DNSNames parsed],
                   keyHashToSerial := keyHashToSerial tx @
                       [\<lparr>kh_Fingerprint = keyFingerprint env (RawSubjectPublicKeyInfo parsed),
                         kh_Serial = SerialToString env (SerialNumber parsed),
                         kh_IssuedAt = NotBefore parsed\<rparr>]\<rparr>"
  using assms
  by (auto simp: AddPrecertificate_tx_def SelectOne_count_def Insert_precert_def
        Exec_insert_certificateStatus_def checkFQDNSetExists_def addIssuedNames_def addKeyHash_def
        Let_def list_ex_iff filter_empty_conv statusRow_def colon_append
      split: option.splits if_splits sum.splits dest!: insertIssuedNames_Inr bindNamed_Some)

text \<open>The errors a transaction can end with are those its steps make.\<close>

lemma AddPrecertificate_tx_Inl:
  assumes "AddPrecertificate_tx env req parsed serialHex pc tx = Inl e"
  shows "e = DuplicateError ''cannot add a duplicate cert'' [] \<or>
         e = Errorf ''too many arguments inserting row into certificateStatus'' [] \<or>
         (\<exists>m. e = StorageError m)"
  using assms
  by (auto simp: AddPrecertificate_tx_def SelectOne_count_def Insert_precert_def
        Exec_insert_certificateStatus_def checkFQDNSetExists_def addIssuedNames_def addKeyHash_def
        Let_def
      split: option.splits if_splits sum.splits dest!: insertIssuedNames_Inl)

subsection \<open>AddPrecertificate as a whole\<close>

lemma AddPrecertificate_Inl_unchanged:
  "AddPrecertificate env db reqp = (Inl e, db') \<Longrightarrow> db' = db"
  by (auto simp: AddPrecertificate_def WithTransaction_def Let_def
      split: option.splits if_splits sum.splits)

lemma AddPrecertificate_parsed:
  assumes "requiredPresent req" and "ParseCertificate env (acr_Der req) = Inr parsed"
  shows "AddPrecertificate env db (Some req) =
     (case AddPrecertificate_tx env req parsed (SerialToString env (SerialNumber parsed))
             (newPrecert env req parsed) db of
        Inl err \<Rightarrow> (Inl err, db)
      | Inr tx \<Rightarrow> (Inr Empty, tx))"
  using assms
  by (simp add: AddPrecertificate_def WithTransaction_def Let_def newPrecert_def
      requiredPresent_def split: sum.splits)

lemma AddPrecertificate_Inr:
  assumes "AddPrecertificate env db reqp = (Inr ack, db')"
  shows "ack = Empty \<and> (\<exists>req parsed. reqp = Some req \<and> requiredPresent req \<and>
           ParseCertificate env (acr_Der req) = Inr parsed \<and>
           AddPrecertificate_tx env req parsed (SerialToString env (SerialNumber parsed))
             (newPrecert env req parsed) db = Inr db')"
  using assms
  by (auto simp: AddPrecertificate_def WithTransaction_def Let_def newPrecert_def
      requiredPresent_def split: option.splits if_splits sum.splits)

lemma requiredPresent_iff:
  "requiredPresent req =
     (acr_Der req \<noteq> [] \<and> acr_Issued req \<noteq> 0 \<and> acr_RegID req \<noteq> 0 \<and> acr_IssuerID req \<noteq> 0)"
  by (auto simp: requiredPresent_def IsAnyNilOrZero_def)

lemma AddPrecertificate_incomplete_run:
  "\<not> requiredPresent req \<Longrightarrow>
   AddPrecertificate env db (Some req) = (Inl errIncompleteRequest, db)"
  by (simp add: AddPrecertificate_def requiredPresent_def)

lemma AddPrecertificate_complete_not_incomplete:
  assumes "requiredPresent req"
  shows "fst (AddPrecertificate env db (Some req)) \<noteq> Inl errIncompleteRequest"
proof (cases "ParseCertificate env (acr_Der req)")
  case (Inl m)
  with assms show ?thesis by (simp add: AddPrecertificate_def requiredPresent_def)
next
  case parsed: (Inr parsed)
  show ?thesis
  proof (cases "AddPrecertificate_tx env req parsed (SerialToString env (SerialNumber parsed))
             (newPrecert env req parsed) db")
    case (Inl e)
    from AddPrecertificate_tx_Inl [OF Inl] have "e \<noteq> errIncompleteRequest" by auto
    with Inl show ?thesis by (simp add: AddPrecertificate_parsed [OF assms parsed])
  next
    case (Inr tx)
    then show ?thesis by (simp add: AddPrecertificate_parsed [OF assms parsed])
  qed
qed


lemma too_many_arguments:
  assumes "requiredPresent req" and "ParseCertificate env (acr_Der req) = Inr parsed"
    and "fault env SelectPrecertCount = None"
    and "\<not> list_ex (\<lambda>r. pc_Serial r = SerialToString env (SerialNumber parsed)) (precertificates db)"
    and "fault env InsertPrecert = None"
    and "length (certStatusArgs env req parsed (SerialToString env (SerialNumber parsed))) >
         length (certStatusFields env)"
  shows "AddPrecertificate env db (Some req) =
     (Inl (Errorf ''too many arguments inserting row into certificateStatus'' []), db)"
  using assms
  by (simp add: AddPrecertificate_parsed AddPrecertificate_tx_def SelectOne_count_def
        Insert_precert_def Let_def list_ex_iff filter_empty_conv)

subsection \<open>The status row\<close>

lemma statusRow_statusColumns:
  "certStatusFields env = statusColumns \<Longrightarrow>
   statusRow env req parsed serialHex =
     [(''serial'', VStr serialHex),
      (''status'', VStr ''good''),
      (''ocspLastUpdated'', VTime (clk_Now env)),
      (''revokedDate'', VTime zeroTime),
      (''revokedReason'', VInt 0),
      (''lastExpirationNagSent'', VTime zeroTime),
      (''ocspResponse'', VBytes (acr_Ocsp req)),
      (''notAfter'', VTime (NotAfter parsed)),
      (''isExpired'', VBool False),
      (''issuerID'', VInt (sint (acr_IssuerID req)))]"
  by (simp add: statusRow_def statusColumns_def certStatusArgs_def OCSPStatusGood_def)

lemma map_of_map_key:
  "c \<in> set cs \<Longrightarrow> map_of (map (\<lambda>c. (c, f c)) cs) c = Some (f c)"
  by (induction cs) auto

lemma statusRow_ocspLastUpdated:
  "''ocspLastUpdated'' \<in> set (certStatusFields env) \<Longrightarrow>
   map_of (statusRow env req parsed serialHex) ''ocspLastUpdated'' = Some (VTime (clk_Now env))"
  by (simp add: statusRow_def map_of_map_key certStatusArgs_def)

subsection \<open>The common name is not read\<close>

lemma withCommonName_sel:
  "SerialToString (withCommonName cn env) = SerialToString env"
  "fault (withCommonName cn env) = fault env"
  "certStatusFields (withCommonName cn env) = certStatusFields env"
  "clk_Now (withCommonName cn env) = clk_Now env"
  "keyFingerprint (withCommonName cn env) = keyFingerprint env"
  by (simp_all add: withCommonName_def)

lemma insertIssuedNames_withCommonName:
  "insertIssuedNames (withCommonName cn env) s at r i ns tx = insertIssuedNames env s at r i ns tx"
  by (induction ns arbitrary: i tx) (simp_all add: withCommonName_sel split: option.splits)

lemma steps_withCommonName:
  "SelectOne_count (withCommonName cn env) tx s = SelectOne_count env tx s"
  "Insert_precert (withCommonName cn env) tx pc = Insert_precert env tx pc"
  "Exec_insert_certificateStatus (withCommonName cn env) tx cs ps args =
     Exec_insert_certificateStatus env tx cs ps args"
  "checkFQDNSetExists (withCommonName cn env) tx ns = checkFQDNSetExists env tx ns"
  "addIssuedNames (withCommonName cn env) tx (parsed\<lparr>Subject_CommonName := cn\<rparr>) r =
     addIssuedNames env tx parsed r"
  "addKeyHash (withCommonName cn env) tx (parsed\<lparr>Subject_CommonName := cn\<rparr>) =
     addKeyHash env tx parsed"
  "certStatusArgs (withCommonName cn env) req (parsed\<lparr>Subject_CommonName := cn\<rparr>) s =
     certStatusArgs env req parsed s"
  by (simp_all add: SelectOne_count_def Insert_precert_def Exec_insert_certificateStatus_def
      checkFQDNSetExists_def addIssuedNames_def addKeyHash_def certStatusArgs_def
      withCommonName_sel insertIssuedNames_withCommonName
      cong: sum.case_cong option.case_cong)

lemma AddPrecertificate_tx_withCommonName:
  "AddPrecertificate_tx (withCommonName cn env) req (parsed\<lparr>Subject_CommonName := cn\<rparr>) s pc tx =
   AddPrecertificate_tx env req parsed s pc tx"
  by (simp add: AddPrecertificate_tx_def steps_withCommonName withCommonName_sel Let_def
      cong: sum.case_cong if_cong)

lemma AddPrecertificate_withCommonName:
  "AddPrecertificate (withCommonName cn env) db reqp = AddPrecertificate env db reqp"
proof (cases reqp)
  case None
  then show ?thesis by (simp add: AddPrecertificate_def)
next
  case (Some req)
  show ?thesis
  proof (cases "ParseCertificate env (acr_Der req)")
    case (Inl m)
    then have "ParseCertificate (withCommonName cn env) (acr_Der req) = Inl m"
      by (simp add: withCommonName_def)
    with Inl Some show ?thesis by (simp add: AddPrecertificate_def)
  next
    case (Inr parsed)
    then have p': "ParseCertificate (withCommonName cn env) (acr_Der req) =
        Inr (parsed\<lparr>Subject_CommonName := cn\<rparr>)"
      by (simp add: withCommonName_def)
    have sel: "SerialToString (withCommonName cn env) = SerialToString env"
      by (simp add: withCommonName_def)
    have "AddPrecertificate_tx (withCommonName cn env) req (parsed\<lparr>Subject_CommonName := cn\<rparr>) =
          AddPrecertificate_tx env req parsed"
      by (intro ext) (rule AddPrecertificate_tx_withCommonName)
    then show ?thesis
      unfolding Some AddPrecertificate_def
      by (simp add: Inr p' sel Let_def)
  qed
qed

subsection \<open>Lookup\<close>

lemma find_append_None:
  "find P xs = None \<Longrightarrow> find P (xs @ ys) = find P ys"
  by (induction xs) (auto split: if_splits)

lemma SelectPrecertificate_after_insert:
  assumes "fault env SelectPrecert = None"
    and "\<not> list_ex (\<lambda>r. pc_Serial r = pc_Serial pc) (precertificates db)"
    and "precertificates db' = precertificates db @ [pc]"
  shows "SelectPrecertificate env db' (pc_Serial pc) = Inr pc"
proof -
  from assms(2) have "find (\<lambda>r. pc_Serial r = pc_Serial pc) (precertificates db) = None"
    by (simp add: find_None_iff list_ex_iff)
  with assms(1,3) show ?thesis
    by (simp add: SelectPrecertificate_def find_append_None)
qed

subsection \<open>Runs of the examples\<close>

lemma run_reqA:
  "AddPrecertificate env0 emptyStore (Some reqA) = (Inr Empty, storeA)"
  by (simp add: op_defs demo_defs)

lemma run_reqA_again:
  "AddPrecertificate env0 storeA (Some reqA) =
     (Inl (DuplicateError ''cannot add a duplicate cert'' []), storeA)"
  by (simp add: op_defs demo_defs)

lemma run_reqA_keyFault:
  "AddPrecertificate envKeyFault emptyStore (Some reqA) =
     (Inl (StorageError ''injected fault''), emptyStore)"
  by (simp add: op_defs demo_defs)

lemma run_reqB:
  "fst (AddPrecertificate env0 storeA (Some reqB)) = Inr Empty"
  by (simp add: op_defs demo_defs insert_commute)

lemma run_reqC:
  "fst (AddPrecertificate env0 storeA (Some reqC)) = Inr Empty"
  by (simp add: op_defs demo_defs)

section \<open>The claims\<close>

subsection \<open>C1: the issuance is all-or-nothing\<close>

text \<open>
  Claim C1. \<^verbatim>\<open>AddPrecertificate\<close> is all-or-nothing. First conjunct: whatever the input,
  a call that returns an error leaves the store exactly as it was: it persists no
  Precertificate, status, issued-name or key-fingerprint row, so a serial without rows
  before the call has none after it. A call that succeeds returns the empty
  acknowledgement and has appended the Precertificate row, the status row (every column
  of the schema bound to its argument), one IssuedNameRecord for each DNS name and the
  KeyFingerprintRecord of the serial. Second conjunct: for a request that passes the field check and parses, whichever
  step of the transaction fails (the count query, the duplicate check, the precertificate
  insert, the status insert, the name-set query, the issued-name inserts, the
  key-fingerprint insert, each run on the store its predecessors left), the error \<open>e\<close> of
  that step is what the caller gets, unchanged, with the store as before the call.
\<close>

theorem AddPrecertificate_all_or_nothing:
  "(AddPrecertificate env db reqp = (res, db') \<longrightarrow>
     (case res of
        Inl err \<Rightarrow> db' = db
      | Inr ack \<Rightarrow>
          ack = Empty \<and>
          (\<exists>req parsed. reqp = Some req \<and> ParseCertificate env (acr_Der req) = Inr parsed \<and>
             precertificates db' = precertificates db @ [newPrecert env req parsed] \<and>
             list_all (\<lambda>c. map_of (certStatusArgs env req parsed
                                 (SerialToString env (SerialNumber parsed))) c \<noteq> None)
               (certStatusFields env) \<and>
             certificateStatus db' = certificateStatus db @
               [statusRow env req parsed (SerialToString env (SerialNumber parsed))] \<and>
             issuedNames db' = issuedNames db @
               map (\<lambda>n. \<lparr>in_Name = n, in_Serial = SerialToString env (SerialNumber parsed),
                         in_IssuedAt = NotBefore parsed,
                         in_IsRenewal =
                           list_ex (\<lambda>prior. sameNameSet prior (DNSNames parsed)) (fqdnSets db)\<rparr>)
                   (DNSNames parsed) \<and>
             keyHashToSerial db' = keyHashToSerial db @
               [\<lparr>kh_Fingerprint = keyFingerprint env (RawSubjectPublicKeyInfo parsed),
                 kh_Serial = SerialToString env (SerialNumber parsed),
                 kh_IssuedAt = NotBefore parsed\<rparr>]))) \<and>
   (requiredPresent req \<and> ParseCertificate env (acr_Der req) = Inr parsed \<and>
    serialHex = SerialToString env (SerialNumber parsed) \<longrightarrow>
      (SelectOne_count env db serialHex = Inl e \<longrightarrow>
         AddPrecertificate env db (Some req) = (Inl e, db)) \<and>
      (SelectOne_count env db serialHex = Inr n \<and> n > 0 \<longrightarrow>
         AddPrecertificate env db (Some req) =
           (Inl (DuplicateError ''cannot add a duplicate cert'' []), db)) \<and>
      (SelectOne_count env db serialHex = Inr n \<and> \<not> n > 0 \<longrightarrow>
        (Insert_precert env db (newPrecert env req parsed) = Inl e \<longrightarrow>
           AddPrecertificate env db (Some req) = (Inl e, db)) \<and>
        (Insert_precert env db (newPrecert env req parsed) = Inr txa \<and>
         length (certStatusArgs env req parsed serialHex) \<le> length (certStatusFields env) \<longrightarrow>
           (Exec_insert_certificateStatus env txa (certStatusFields env)
              (map (\<lambda>fieldName. '':'' @ fieldName) (certStatusFields env))
              (certStatusArgs env req parsed serialHex) = Inl e \<longrightarrow>
              AddPrecertificate env db (Some req) = (Inl e, db)) \<and>
           (Exec_insert_certificateStatus env txa (certStatusFields env)
              (map (\<lambda>fieldName. '':'' @ fieldName) (certStatusFields env))
              (certStatusArgs env req parsed serialHex) = Inr txb \<longrightarrow>
              (checkFQDNSetExists env txb (DNSNames parsed) = Inl e \<longrightarrow>
                 AddPrecertificate env db (Some req) = (Inl e, db)) \<and>
              (checkFQDNSetExists env txb (DNSNames parsed) = Inr isRenewal \<longrightarrow>
                 (addIssuedNames env txb parsed isRenewal = Inl e \<longrightarrow>
                    AddPrecertificate env db (Some req) = (Inl e, db)) \<and>
                 (addIssuedNames env txb parsed isRenewal = Inr txc \<and>
                  addKeyHash env txc parsed = Inl e \<longrightarrow>
                    AddPrecertificate env db (Some req) = (Inl e, db)))))))"
proof (intro conjI impI)
  assume run: "AddPrecertificate env db reqp = (res, db')"
  show "case res of
        Inl err \<Rightarrow> db' = db
      | Inr ack \<Rightarrow>
          ack = Empty \<and>
          (\<exists>req parsed. reqp = Some req \<and> ParseCertificate env (acr_Der req) = Inr parsed \<and>
             precertificates db' = precertificates db @ [newPrecert env req parsed] \<and>
             list_all (\<lambda>c. map_of (certStatusArgs env req parsed
                                 (SerialToString env (SerialNumber parsed))) c \<noteq> None)
               (certStatusFields env) \<and>
             certificateStatus db' = certificateStatus db @
               [statusRow env req parsed (SerialToString env (SerialNumber parsed))] \<and>
             issuedNames db' = issuedNames db @
               map (\<lambda>n. \<lparr>in_Name = n, in_Serial = SerialToString env (SerialNumber parsed),
                         in_IssuedAt = NotBefore parsed,
                         in_IsRenewal =
                           list_ex (\<lambda>prior. sameNameSet prior (DNSNames parsed)) (fqdnSets db)\<rparr>)
                   (DNSNames parsed) \<and>
             keyHashToSerial db' = keyHashToSerial db @
               [\<lparr>kh_Fingerprint = keyFingerprint env (RawSubjectPublicKeyInfo parsed),
                 kh_Serial = SerialToString env (SerialNumber parsed),
                 kh_IssuedAt = NotBefore parsed\<rparr>])"
  proof (cases res)
    case (Inl err)
    with run show ?thesis by (simp add: AddPrecertificate_Inl_unchanged)
  next
    case (Inr ack)
    with run have r: "AddPrecertificate env db reqp = (Inr ack, db')" by simp
    from AddPrecertificate_Inr [OF r] obtain rq p where
      ack: "ack = Empty" and rq: "reqp = Some rq"
      and p: "ParseCertificate env (acr_Der rq) = Inr p"
      and tx: "AddPrecertificate_tx env rq p (SerialToString env (SerialNumber p))
             (newPrecert env rq p) db = Inr db'"
      by blast
    from AddPrecertificate_tx_Inr [OF tx] have
      "db' = db\<lparr>precertificates := precertificates db @ [newPrecert env rq p],
                 certificateStatus := certificateStatus db @
                   [statusRow env rq p (SerialToString env (SerialNumber p))],
                 issuedNames := issuedNames db @
                   map (\<lambda>n. \<lparr>in_Name = n, in_Serial = SerialToString env (SerialNumber p),
                             in_IssuedAt = NotBefore p,
                             in_IsRenewal =
                               list_ex (\<lambda>prior. sameNameSet prior (DNSNames p)) (fqdnSets db)\<rparr>)
                       (DNSNames p),
                 fqdnSets := fqdnSets db @ [DNSNames p],
                 keyHashToSerial := keyHashToSerial db @
                   [\<lparr>kh_Fingerprint = keyFingerprint env (RawSubjectPublicKeyInfo p),
                     kh_Serial = SerialToString env (SerialNumber p),
                     kh_IssuedAt = NotBefore p\<rparr>]\<rparr>"
      by blast
    moreover from AddPrecertificate_tx_Inr [OF tx] have
      "list_all (\<lambda>c. map_of (certStatusArgs env rq p
                          (SerialToString env (SerialNumber p))) c \<noteq> None)
         (certStatusFields env)"
      by blast
    ultimately show ?thesis using Inr ack rq p by simp
  qed
qed (simp_all add: AddPrecertificate_parsed AddPrecertificate_tx_def Let_def colon_append)

text \<open>
  The issuance of \<open>certA\<close> into the empty store commits all its rows; with a fault injected
  at the key-fingerprint insert, the last step, the same call returns that fault and
  leaves the empty store empty.
\<close>

theorem AddPrecertificate_all_or_nothing_witness:
  "AddPrecertificate env0 emptyStore (Some reqA) = (Inr Empty, storeA) \<and>
   precertificates storeA = precertificates emptyStore @ [newPrecert env0 reqA certA] \<and>
   keyHashToSerial storeA = keyHashToSerial emptyStore @
     [\<lparr>kh_Fingerprint = [3, 2, 1], kh_Serial = ''00000000000000000000000000000000000a'',
       kh_IssuedAt = 1700000000000000000\<rparr>] \<and>
   addKeyHash envKeyFault (storeA\<lparr>keyHashToSerial := []\<rparr>) certA =
     Inl (StorageError ''injected fault'') \<and>
   AddPrecertificate envKeyFault emptyStore (Some reqA) =
     (Inl (StorageError ''injected fault''), emptyStore)"
proof -
  note ok = AddPrecertificate_all_or_nothing
    [where env = env0 and db = emptyStore and reqp = "Some reqA" and res = "Inr Empty"
       and db' = storeA, THEN conjunct1]
  note ko = AddPrecertificate_all_or_nothing
    [where env = envKeyFault and db = emptyStore and req = reqA and parsed = certA
       and serialHex = "''00000000000000000000000000000000000a''"
       and e = "StorageError ''injected fault''" and n = 0
       and txa = "storeA\<lparr>certificateStatus := [], issuedNames := [], fqdnSets := [],
                         keyHashToSerial := []\<rparr>"
       and txb = "storeA\<lparr>issuedNames := [], fqdnSets := [], keyHashToSerial := []\<rparr>"
       and isRenewal = False
       and txc = "storeA\<lparr>keyHashToSerial := []\<rparr>", THEN conjunct2]
  from ok ko show ?thesis
    by (simp add: op_defs demo_defs)
qed

subsection \<open>C2: a serial that is already recorded\<close>



subsection \<open>C3: renewal classification\<close>

text \<open>
  Claim C3. First conjunct: on a successful call, every IssuedNameRecord of this issuance
  (one for each DNS name of the parsed certificate, appended in order) stores the same
  flag, and the flag is true exactly when some name set recorded by a prior issuance is
  equal, as a set and compared case-insensitively, to the set of the certificate's DNS
  names; otherwise it is false. Second conjunct: the Subject Common Name is never
  consulted: replacing the common name of the parsed certificate by any other changes
  neither the result nor the store the call leaves.
\<close>

theorem AddPrecertificate_renewal:
  "(AddPrecertificate env db (Some req) = (Inr ack, db') \<and>
    ParseCertificate env (acr_Der req) = Inr parsed \<longrightarrow>
      issuedNames db' = issuedNames db @
        map (\<lambda>n. \<lparr>in_Name = n, in_Serial = SerialToString env (SerialNumber parsed),
                  in_IssuedAt = NotBefore parsed,
                  in_IsRenewal =
                    list_ex (\<lambda>prior. set (map lowerName prior) =
                                       set (map lowerName (DNSNames parsed)))
                      (fqdnSets db)\<rparr>)
            (DNSNames parsed)) \<and>
   AddPrecertificate (withCommonName cn env) db reqp = AddPrecertificate env db reqp"
proof (intro conjI impI)
  assume a: "AddPrecertificate env db (Some req) = (Inr ack, db') \<and>
    ParseCertificate env (acr_Der req) = Inr parsed"
  then have run: "AddPrecertificate env db (Some req) = (Inr ack, db')"
    and p: "ParseCertificate env (acr_Der req) = Inr parsed"
    by simp_all
  from AddPrecertificate_Inr [OF run] p have
    tx: "AddPrecertificate_tx env req parsed (SerialToString env (SerialNumber parsed))
             (newPrecert env req parsed) db = Inr db'"
    by auto
  from AddPrecertificate_tx_Inr [OF tx] show
    "issuedNames db' = issuedNames db @
        map (\<lambda>n. \<lparr>in_Name = n, in_Serial = SerialToString env (SerialNumber parsed),
                  in_IssuedAt = NotBefore parsed,
                  in_IsRenewal =
                    list_ex (\<lambda>prior. set (map lowerName prior) =
                                       set (map lowerName (DNSNames parsed)))
                      (fqdnSets db)\<rparr>)
            (DNSNames parsed)"
    by (simp add: sameNameSet_def)
next
  show "AddPrecertificate (withCommonName cn env) db reqp = AddPrecertificate env db reqp"
    by (rule AddPrecertificate_withCommonName)
qed

text \<open>
  The first certificate for a.example and b.example is no renewal; a second one with
  another serial for B.Example and a.example, issued after it, is a renewal, whatever its
  common name; one for c.example is not.
\<close>

theorem AddPrecertificate_renewal_witness:
  "map in_IsRenewal (issuedNames (snd (AddPrecertificate env0 emptyStore (Some reqA)))) =
     [False, False] \<and>
   map in_IsRenewal (issuedNames (snd (AddPrecertificate env0 storeA (Some reqB)))) =
     [False, False, True, True] \<and>
   map in_IsRenewal (issuedNames (snd (AddPrecertificate env0 storeA (Some reqC)))) =
     [False, False, False] \<and>
   AddPrecertificate (withCommonName ''other.example'' env0) storeA (Some reqB) =
     AddPrecertificate env0 storeA (Some reqB)"
proof -
  have pa: "ParseCertificate env0 (acr_Der reqA) = Inr certA"
    and pb: "ParseCertificate env0 (acr_Der reqB) = Inr certB"
    and pc: "ParseCertificate env0 (acr_Der reqC) = Inr certC"
    by (simp_all add: demo_defs)
  have ra: "AddPrecertificate env0 emptyStore (Some reqA) =
      (Inr Empty, snd (AddPrecertificate env0 emptyStore (Some reqA)))"
    by (simp add: run_reqA)
  have rb: "AddPrecertificate env0 storeA (Some reqB) =
      (Inr Empty, snd (AddPrecertificate env0 storeA (Some reqB)))"
    using run_reqB by (simp add: prod_eq_iff)
  have rc: "AddPrecertificate env0 storeA (Some reqC) =
      (Inr Empty, snd (AddPrecertificate env0 storeA (Some reqC)))"
    using run_reqC by (simp add: prod_eq_iff)
  note t = AddPrecertificate_renewal [THEN conjunct1, rule_format, OF conjI]
  have a: "map in_IsRenewal (issuedNames (snd (AddPrecertificate env0 emptyStore (Some reqA)))) =
     [False, False]"
    by (simp add: t [OF ra pa]) (simp add: demo_defs lowerName_def)
  have b: "map in_IsRenewal (issuedNames (snd (AddPrecertificate env0 storeA (Some reqB)))) =
     [False, False, True, True]"
    by (simp add: t [OF rb pb]) (simp add: demo_defs lowerName_def insert_commute)
  have c: "map in_IsRenewal (issuedNames (snd (AddPrecertificate env0 storeA (Some reqC)))) =
     [False, False, False]"
    by (simp add: t [OF rc pc]) (simp add: demo_defs lowerName_def)
  from a b c AddPrecertificate_renewal [THEN conjunct2] show ?thesis by simp
qed

subsection \<open>C4: the required fields of AddPrecertificate\<close>

text \<open>
  Claim C4, as stated: \<^verbatim>\<open>AddPrecertificate\<close> fails with IncompleteRequest if and only if one
  of DER bytes, issuance timestamp, registration ID, issuer ID or OCSP response is absent
  or zero-valued. The source checks four fields, not the OCSP response: the issuance of
  \<open>certA\<close> with an empty OCSP response succeeds.
\<close>

theorem AddPrecertificate_incomplete_counterexample:
  "\<not> ((fst (AddPrecertificate env0 emptyStore (Some (reqA\<lparr>acr_Ocsp := []\<rparr>))) =
          Inl errIncompleteRequest) =
        (acr_Der (reqA\<lparr>acr_Ocsp := []\<rparr>) = [] \<or> acr_Issued (reqA\<lparr>acr_Ocsp := []\<rparr>) = 0 \<or>
         acr_RegID (reqA\<lparr>acr_Ocsp := []\<rparr>) = 0 \<or> acr_IssuerID (reqA\<lparr>acr_Ocsp := []\<rparr>) = 0 \<or>
         acr_Ocsp (reqA\<lparr>acr_Ocsp := []\<rparr>) = []))"
  by (simp add: op_defs demo_defs)

text \<open>
  Claim C4, amended. \<^verbatim>\<open>AddPrecertificate\<close> fails with IncompleteRequest if and only if one
  of DER bytes, issuance timestamp, registration ID or issuer ID is absent or zero-valued
  (the OCSP response is not checked); in that case it returns at once, whatever the parser,
  the fault plan and the store are, and the store is unchanged.
\<close>

theorem AddPrecertificate_incomplete:
  "(fst (AddPrecertificate env db (Some req)) = Inl errIncompleteRequest) =
     (acr_Der req = [] \<or> acr_Issued req = 0 \<or> acr_RegID req = 0 \<or> acr_IssuerID req = 0) \<and>
   (acr_Der req = [] \<or> acr_Issued req = 0 \<or> acr_RegID req = 0 \<or> acr_IssuerID req = 0 \<longrightarrow>
      AddPrecertificate env db (Some req) = (Inl errIncompleteRequest, db))"
proof (cases "requiredPresent req")
  case True
  with AddPrecertificate_complete_not_incomplete [OF True, of env db] show ?thesis
    by (simp add: requiredPresent_iff)
next
  case False
  with AddPrecertificate_incomplete_run [OF False, of env db] show ?thesis
    by (auto simp: requiredPresent_iff)
qed

text \<open>A request without issuance timestamp is incomplete; one without OCSP response is not.\<close>

theorem AddPrecertificate_incomplete_witness:
  "acr_Issued (reqA\<lparr>acr_Issued := 0\<rparr>) = 0 \<and>
   AddPrecertificate env0 storeA (Some (reqA\<lparr>acr_Issued := 0\<rparr>)) =
     (Inl errIncompleteRequest, storeA) \<and>
   fst (AddPrecertificate env0 emptyStore (Some (reqA\<lparr>acr_Ocsp := []\<rparr>))) \<noteq>
     Inl errIncompleteRequest"
proof -
  from AddPrecertificate_incomplete
    [where env = env0 and db = storeA and req = "reqA\<lparr>acr_Issued := 0\<rparr>"]
  have a: "AddPrecertificate env0 storeA (Some (reqA\<lparr>acr_Issued := 0\<rparr>)) =
     (Inl errIncompleteRequest, storeA)"
    by simp
  from AddPrecertificate_incomplete
    [where env = env0 and db = emptyStore and req = "reqA\<lparr>acr_Ocsp := []\<rparr>"]
  have b: "fst (AddPrecertificate env0 emptyStore (Some (reqA\<lparr>acr_Ocsp := []\<rparr>))) \<noteq>
     Inl errIncompleteRequest"
    by (simp add: reqA_def)
  from a b show ?thesis by simp
qed

subsection \<open>C5: DER bytes that do not parse\<close>

text \<open>
  Claim C5, as stated: for every input whose DER bytes do not decode as a certificate,
  \<^verbatim>\<open>AddPrecertificate\<close> fails with the parse error. The check of the required fields comes
  first: the request \<open>reqBad\<close>, whose DER bytes do not parse and whose registration ID is
  zero, fails with IncompleteRequest, not with the parser's error.
\<close>

theorem AddPrecertificate_malformed_der_counterexample:
  "ParseCertificate env0 (acr_Der reqBad) = Inl ''x509: malformed certificate'' \<and>
   AddPrecertificate env0 emptyStore (Some reqBad) = (Inl errIncompleteRequest, emptyStore) \<and>
   fst (AddPrecertificate env0 emptyStore (Some reqBad)) \<noteq>
     Inl (X509Error ''x509: malformed certificate'')"
  by (simp add: op_defs demo_defs)

text \<open>
  Claim C5, amended. For every input that passes the check of the required fields and whose
  DER bytes do not decode as a certificate, \<^verbatim>\<open>AddPrecertificate\<close> fails with the parser's
  error, unchanged, before the transaction begins (whatever the fault plan of the storage
  layer), and the store is left as it was: the call has no row in any table.
\<close>

theorem AddPrecertificate_malformed_der:
  "requiredPresent req \<and> ParseCertificate env (acr_Der req) = Inl m \<longrightarrow>
     AddPrecertificate env db (Some req) = (Inl (X509Error m), db)"
  by (simp add: AddPrecertificate_def requiredPresent_def)

text \<open>The same malformed DER bytes in a request with a registration ID.\<close>

theorem AddPrecertificate_malformed_der_witness:
  "requiredPresent (reqBad\<lparr>acr_RegID := 7\<rparr>) \<and>
   ParseCertificate envKeyFault (acr_Der (reqBad\<lparr>acr_RegID := 7\<rparr>)) =
     Inl ''x509: malformed certificate'' \<and>
   AddPrecertificate envKeyFault storeA (Some (reqBad\<lparr>acr_RegID := 7\<rparr>)) =
     (Inl (X509Error ''x509: malformed certificate''), storeA)"
proof -
  have h: "requiredPresent (reqBad\<lparr>acr_RegID := 7\<rparr>) \<and>
      ParseCertificate envKeyFault (acr_Der (reqBad\<lparr>acr_RegID := 7\<rparr>)) =
        Inl ''x509: malformed certificate''"
    by (simp add: op_defs demo_defs)
  from AddPrecertificate_malformed_der [rule_format, OF h, of storeA] h
  show ?thesis by simp
qed

subsection \<open>C6: AddSerial\<close>

text \<open>
  Claim C6, as stated: when all four inputs are present, \<^verbatim>\<open>AddSerial\<close> inserts exactly one
  SerialRecord and returns the empty acknowledgement. The insert can fail, and the source
  returns its error: reserving the serial of \<open>reqS\<close> a second time, with all four inputs
  present, is refused by the storage layer, returns that error and inserts nothing.
\<close>

theorem AddSerial_cases_counterexample:
  "serialRequestComplete reqS \<and>
   AddSerial env0 emptyStore (Some reqS) = (Inr Empty, storeS) \<and>
   AddSerial env0 storeS (Some reqS) =
     (Inl (StorageError ''duplicate entry for key serial''), storeS) \<and>
   fst (AddSerial env0 storeS (Some reqS)) \<noteq> Inr Empty"
  by (simp add: op_defs demo_defs)

text \<open>
  Claim C6, amended. \<^verbatim>\<open>AddSerial\<close> fails with IncompleteRequest if and only if one of
  serial, registration ID, created and expires is absent or zero-valued, and in that case
  inserts nothing. When all four are present and the storage layer accepts the insert (no
  fault, and no SerialRecord with that serial yet), it appends exactly one SerialRecord
  with those values and returns the empty acknowledgement. When all four are present and
  the storage layer refuses the insert, the error \<open>e\<close> of the insert is what the caller
  gets, unchanged, and nothing is inserted: the error of the fault plan when there is
  one, the constraint violation when the serial is already recorded.
\<close>

theorem AddSerial_cases:
  "((fst (AddSerial env db (Some req)) = Inl errIncompleteRequest) =
      (asr_Serial req = [] \<or> asr_RegID req = 0 \<or> asr_Created req = 0 \<or> asr_Expires req = 0)) \<and>
   (asr_Serial req = [] \<or> asr_RegID req = 0 \<or> asr_Created req = 0 \<or> asr_Expires req = 0 \<longrightarrow>
      AddSerial env db (Some req) = (Inl errIncompleteRequest, db)) \<and>
   (serialRequestComplete req \<and> fault env InsertSerial = None \<and>
    \<not> list_ex (\<lambda>r. rs_Serial r = asr_Serial req) (serials db) \<longrightarrow>
      AddSerial env db (Some req) = (Inr Empty, db\<lparr>serials := serials db @ [newSerial req]\<rparr>)) \<and>
   (serialRequestComplete req \<and> Insert_serial env db (newSerial req) = Inl e \<longrightarrow>
      AddSerial env db (Some req) = (Inl e, db)) \<and>
   (serialRequestComplete req \<and> Insert_serial env db (newSerial req) = Inr dbn \<longrightarrow>
      AddSerial env db (Some req) = (Inr Empty, dbn)) \<and>
   (serialRequestComplete req \<and> fault env InsertSerial = Some m \<longrightarrow>
      Insert_serial env db (newSerial req) = Inl (StorageError m) \<and>
      AddSerial env db (Some req) = (Inl (StorageError m), db)) \<and>
   (serialRequestComplete req \<and> fault env InsertSerial = None \<and>
    list_ex (\<lambda>r. rs_Serial r = asr_Serial req) (serials db) \<longrightarrow>
      Insert_serial env db (newSerial req) = Inl (StorageError ''duplicate entry for key serial'') \<and>
      AddSerial env db (Some req) = (Inl (StorageError ''duplicate entry for key serial''), db))"
proof (intro conjI impI)
  show "(fst (AddSerial env db (Some req)) = Inl errIncompleteRequest) =
      (asr_Serial req = [] \<or> asr_RegID req = 0 \<or> asr_Created req = 0 \<or> asr_Expires req = 0)"
    by (auto simp: AddSerial_def Insert_serial_def IsAnyNilOrZero_def split: option.splits)
next
  assume "asr_Serial req = [] \<or> asr_RegID req = 0 \<or> asr_Created req = 0 \<or> asr_Expires req = 0"
  then show "AddSerial env db (Some req) = (Inl errIncompleteRequest, db)"
    by (auto simp: AddSerial_def IsAnyNilOrZero_def)
next
  assume "serialRequestComplete req \<and> fault env InsertSerial = None \<and>
    \<not> list_ex (\<lambda>r. rs_Serial r = asr_Serial req) (serials db)"
  then show "AddSerial env db (Some req) =
      (Inr Empty, db\<lparr>serials := serials db @ [newSerial req]\<rparr>)"
    by (simp add: AddSerial_def Insert_serial_def serialRequestComplete_def newSerial_def)
next
  assume "serialRequestComplete req \<and> Insert_serial env db (newSerial req) = Inl e"
  then show "AddSerial env db (Some req) = (Inl e, db)"
    by (simp add: AddSerial_def serialRequestComplete_def newSerial_def)
next
  assume "serialRequestComplete req \<and> Insert_serial env db (newSerial req) = Inr dbn"
  then show "AddSerial env db (Some req) = (Inr Empty, dbn)"
    by (simp add: AddSerial_def serialRequestComplete_def newSerial_def)
next
  assume a: "serialRequestComplete req \<and> fault env InsertSerial = Some m"
  then show ins: "Insert_serial env db (newSerial req) = Inl (StorageError m)"
    by (simp add: Insert_serial_def)
  with a show "AddSerial env db (Some req) = (Inl (StorageError m), db)"
    by (simp add: AddSerial_def serialRequestComplete_def newSerial_def)
next
  assume a: "serialRequestComplete req \<and> fault env InsertSerial = None \<and>
    list_ex (\<lambda>r. rs_Serial r = asr_Serial req) (serials db)"
  then show ins: "Insert_serial env db (newSerial req) =
      Inl (StorageError ''duplicate entry for key serial'')"
    by (simp add: Insert_serial_def newSerial_def)
  with a show "AddSerial env db (Some req) =
      (Inl (StorageError ''duplicate entry for key serial''), db)"
    by (simp add: AddSerial_def serialRequestComplete_def newSerial_def)
qed

text \<open>
  The reservation \<open>reqS\<close> in the empty store appends its record; without a registration ID
  it is incomplete; in the store that holds its serial the insert is refused and the
  caller gets the error of the insert; with a fault injected at the insert, that fault.
\<close>

theorem AddSerial_cases_witness:
  "serialRequestComplete reqS \<and>
   AddSerial env0 emptyStore (Some reqS) =
     (Inr Empty, emptyStore\<lparr>serials := serials emptyStore @ [newSerial reqS]\<rparr>) \<and>
   serials (snd (AddSerial env0 emptyStore (Some reqS))) =
     [\<lparr>rs_Serial = ''00000000000000000000000000000000000a'', rs_RegistrationID = 7,
       rs_Created = 1700000000000000000, rs_Expires = 1707776000000000000\<rparr>] \<and>
   AddSerial env0 storeS (Some (reqS\<lparr>asr_RegID := 0\<rparr>)) = (Inl errIncompleteRequest, storeS) \<and>
   Insert_serial env0 storeS (newSerial reqS) =
     Inl (StorageError ''duplicate entry for key serial'') \<and>
   AddSerial env0 storeS (Some reqS) =
     (Inl (StorageError ''duplicate entry for key serial''), storeS) \<and>
   fault envSerialFault InsertSerial = Some ''connection lost'' \<and>
   AddSerial envSerialFault emptyStore (Some reqS) =
     (Inl (StorageError ''connection lost''), emptyStore)"
proof -
  have h: "serialRequestComplete reqS \<and> fault env0 InsertSerial = None \<and>
      \<not> list_ex (\<lambda>r. rs_Serial r = asr_Serial reqS) (serials emptyStore)"
    by (simp add: op_defs demo_defs)
  note t = AddSerial_cases [where env = env0 and db = emptyStore and req = reqS]
  from t h have a: "AddSerial env0 emptyStore (Some reqS) =
     (Inr Empty, emptyStore\<lparr>serials := serials emptyStore @ [newSerial reqS]\<rparr>)"
    by blast
  from AddSerial_cases [where env = env0 and db = storeS and req = "reqS\<lparr>asr_RegID := 0\<rparr>"]
  have b: "AddSerial env0 storeS (Some (reqS\<lparr>asr_RegID := 0\<rparr>)) =
      (Inl errIncompleteRequest, storeS)"
    by simp
  have ins: "serialRequestComplete reqS \<and>
      Insert_serial env0 storeS (newSerial reqS) =
        Inl (StorageError ''duplicate entry for key serial'')"
    by (simp add: op_defs demo_defs)
  note u = AddSerial_cases
    [where env = env0 and db = storeS and req = reqS
       and e = "StorageError ''duplicate entry for key serial''"]
  from u ins have c: "AddSerial env0 storeS (Some reqS) =
     (Inl (StorageError ''duplicate entry for key serial''), storeS)"
    by blast
  have flt: "serialRequestComplete reqS \<and>
      fault envSerialFault InsertSerial = Some ''connection lost''"
    by (simp add: op_defs demo_defs)
  note v = AddSerial_cases
    [where env = envSerialFault and db = emptyStore and req = reqS
       and m = "''connection lost''"]
  from v flt have d: "AddSerial envSerialFault emptyStore (Some reqS) =
     (Inl (StorageError ''connection lost''), emptyStore)"
    by blast
  from a b c d h ins flt show ?thesis
    by (simp add: newSerial_def time_Unix_def demo_defs)
qed

subsection \<open>C7: GetPrecertificate\<close>

text \<open>
  Claim C7. The case analysis of \<^verbatim>\<open>GetPrecertificate\<close>, in this order: an empty serial
  fails with IncompleteRequest and a non-empty serial that is not well-formed fails with the
  validation error, both whatever the store holds and whatever the storage layer would
  answer, since it is not asked; a well-formed serial with no stored Precertificate, on a
  lookup the storage layer answers, fails with NotFound; a well-formed serial with a stored
  Precertificate returns the record of that row; and when the row is the one a successful
  \<^verbatim>\<open>AddPrecertificate\<close> has just recorded, the DER bytes, registration ID, issued time and
  expiry returned are those of that request and its certificate.
\<close>

theorem GetPrecertificate_cases:
  "GetPrecertificate env db (Some \<lparr>sr_Serial = []\<rparr>) = Inl errIncompleteRequest \<and>
   (s \<noteq> [] \<and> \<not> ValidSerial env s \<longrightarrow>
      GetPrecertificate env db (Some \<lparr>sr_Serial = s\<rparr>) =
        Inl (Errorf ''Invalid precertificate serial %q'' [s])) \<and>
   (s \<noteq> [] \<and> ValidSerial env s \<and> fault env SelectPrecert = None \<and>
    \<not> list_ex (\<lambda>r. pc_Serial r = s) (precertificates db) \<longrightarrow>
      GetPrecertificate env db (Some \<lparr>sr_Serial = s\<rparr>) =
        Inl (NotFoundError ''precertificate with serial %q not found'' [s])) \<and>
   (s \<noteq> [] \<and> ValidSerial env s \<and> fault env SelectPrecert = None \<and>
    find (\<lambda>r. pc_Serial r = s) (precertificates db) = Some row \<longrightarrow>
      GetPrecertificate env db (Some \<lparr>sr_Serial = s\<rparr>) =
        Inr \<lparr>pb_RegistrationID = pc_RegistrationID row, pb_Serial = s, pb_Der = pc_DER row,
             pb_Issued = pc_Issued row, pb_Expires = pc_Expires row\<rparr>) \<and>
   (AddPrecertificate env db0 (Some req) = (Inr ack, db) \<and>
    ParseCertificate env (acr_Der req) = Inr parsed \<and>
    s = SerialToString env (SerialNumber parsed) \<and>
    s \<noteq> [] \<and> ValidSerial env s \<and> fault env SelectPrecert = None \<longrightarrow>
      GetPrecertificate env db (Some \<lparr>sr_Serial = s\<rparr>) =
        Inr \<lparr>pb_RegistrationID = acr_RegID req, pb_Serial = s, pb_Der = acr_Der req,
             pb_Issued = time_Unix 0 (acr_Issued req), pb_Expires = NotAfter parsed\<rparr>)"
proof (intro conjI impI)
  show "GetPrecertificate env db (Some \<lparr>sr_Serial = []\<rparr>) = Inl errIncompleteRequest"
    by (simp add: GetPrecertificate_def)
next
  assume "s \<noteq> [] \<and> \<not> ValidSerial env s"
  then show "GetPrecertificate env db (Some \<lparr>sr_Serial = s\<rparr>) =
        Inl (Errorf ''Invalid precertificate serial %q'' [s])"
    by (simp add: GetPrecertificate_def)
next
  assume "s \<noteq> [] \<and> ValidSerial env s \<and> fault env SelectPrecert = None \<and>
    \<not> list_ex (\<lambda>r. pc_Serial r = s) (precertificates db)"
  then show "GetPrecertificate env db (Some \<lparr>sr_Serial = s\<rparr>) =
        Inl (NotFoundError ''precertificate with serial %q not found'' [s])"
    by (simp add: GetPrecertificate_def SelectPrecertificate_def IsNoRows_def find_None_iff
        list_ex_iff split: option.splits)
next
  assume a: "s \<noteq> [] \<and> ValidSerial env s \<and> fault env SelectPrecert = None \<and>
    find (\<lambda>r. pc_Serial r = s) (precertificates db) = Some row"
  then have "pc_Serial row = s" by (auto simp: find_Some_iff)
  with a show "GetPrecertificate env db (Some \<lparr>sr_Serial = s\<rparr>) =
        Inr \<lparr>pb_RegistrationID = pc_RegistrationID row, pb_Serial = s, pb_Der = pc_DER row,
             pb_Issued = pc_Issued row, pb_Expires = pc_Expires row\<rparr>"
    by (simp add: GetPrecertificate_def SelectPrecertificate_def CertToPB_def)
next
  assume a: "AddPrecertificate env db0 (Some req) = (Inr ack, db) \<and>
    ParseCertificate env (acr_Der req) = Inr parsed \<and>
    s = SerialToString env (SerialNumber parsed) \<and>
    s \<noteq> [] \<and> ValidSerial env s \<and> fault env SelectPrecert = None"
  then have run: "AddPrecertificate env db0 (Some req) = (Inr ack, db)"
    and p: "ParseCertificate env (acr_Der req) = Inr parsed"
    and s: "s = SerialToString env (SerialNumber parsed)"
    and ok: "s \<noteq> []" "ValidSerial env s" "fault env SelectPrecert = None"
    by blast+
  from AddPrecertificate_Inr [OF run] p have
    tx: "AddPrecertificate_tx env req parsed (SerialToString env (SerialNumber parsed))
             (newPrecert env req parsed) db0 = Inr db"
    by auto
  from AddPrecertificate_tx_Inr [OF tx] have
    fresh: "\<not> list_ex (\<lambda>r. pc_Serial r = pc_Serial (newPrecert env req parsed))
              (precertificates db0)"
    and pcs: "precertificates db = precertificates db0 @ [newPrecert env req parsed]"
    by (simp_all add: newPrecert_def)
  from SelectPrecertificate_after_insert [OF ok(3) fresh pcs]
  have "SelectPrecertificate env db s = Inr (newPrecert env req parsed)"
    by (simp add: newPrecert_def s)
  with ok show "GetPrecertificate env db (Some \<lparr>sr_Serial = s\<rparr>) =
        Inr \<lparr>pb_RegistrationID = acr_RegID req, pb_Serial = s, pb_Der = acr_Der req,
             pb_Issued = time_Unix 0 (acr_Issued req), pb_Expires = NotAfter parsed\<rparr>"
    by (simp add: GetPrecertificate_def CertToPB_def newPrecert_def s)
qed

text \<open>
  In the store after the issuance of \<open>certA\<close>: a serial that is not hexadecimal, the
  serial of \<open>certB\<close>, which is not stored, and the serial of \<open>certA\<close>.
\<close>

theorem GetPrecertificate_cases_witness:
  "GetPrecertificate env0 storeA (Some \<lparr>sr_Serial = ''not-a-serial''\<rparr>) =
     Inl (Errorf ''Invalid precertificate serial %q'' [''not-a-serial'']) \<and>
   GetPrecertificate env0 storeA (Some \<lparr>sr_Serial = ''00000000000000000000000000000000000b''\<rparr>) =
     Inl (NotFoundError ''precertificate with serial %q not found''
            [''00000000000000000000000000000000000b'']) \<and>
   AddPrecertificate env0 emptyStore (Some reqA) = (Inr Empty, storeA) \<and>
   GetPrecertificate env0 storeA (Some \<lparr>sr_Serial = ''00000000000000000000000000000000000a''\<rparr>) =
     Inr \<lparr>pb_RegistrationID = 7, pb_Serial = ''00000000000000000000000000000000000a'',
          pb_Der = [48, 10], pb_Issued = 1700000000000000000,
          pb_Expires = 1707776000000000000\<rparr>"
proof -
  note a = GetPrecertificate_cases
    [where env = env0 and db = storeA and s = "''not-a-serial''",
     THEN conjunct2, THEN conjunct1]
  note b = GetPrecertificate_cases
    [where env = env0 and db = storeA and s = "''00000000000000000000000000000000000b''",
     THEN conjunct2, THEN conjunct2, THEN conjunct1]
  note c = GetPrecertificate_cases
    [where env = env0 and db = storeA and s = "''00000000000000000000000000000000000a''"
       and ?db0.0 = emptyStore and req = reqA and ack = Empty and parsed = certA,
     THEN conjunct2, THEN conjunct2, THEN conjunct2, THEN conjunct2]
  have va: "''not-a-serial'' \<noteq> [] \<and> \<not> ValidSerial env0 ''not-a-serial''"
    by (simp add: demo_defs)
  have vb: "''00000000000000000000000000000000000b'' \<noteq> [] \<and>
      ValidSerial env0 ''00000000000000000000000000000000000b'' \<and>
      fault env0 SelectPrecert = None \<and>
      \<not> list_ex (\<lambda>r. pc_Serial r = ''00000000000000000000000000000000000b'')
          (precertificates storeA)"
    by (simp add: demo_defs)
  have vc: "AddPrecertificate env0 emptyStore (Some reqA) = (Inr Empty, storeA) \<and>
      ParseCertificate env0 (acr_Der reqA) = Inr certA \<and>
      ''00000000000000000000000000000000000a'' = SerialToString env0 (SerialNumber certA) \<and>
      ''00000000000000000000000000000000000a'' \<noteq> [] \<and>
      ValidSerial env0 ''00000000000000000000000000000000000a'' \<and>
      fault env0 SelectPrecert = None"
    by (simp add: run_reqA) (simp add: demo_defs)
  from a [rule_format, OF va] b [rule_format, OF vb] c [rule_format, OF vc] run_reqA
  show ?thesis
    by (simp add: reqA_def certA_def time_Unix_def)
qed

subsection \<open>C8: the seeded status row\<close>

text \<open>
  Claim C8. First conjunct: on every successful call, with the status table's schema of
  ten columns, the status row appended for the new serial is exactly the fixed initial
  state: status good, revokedDate and lastExpirationNagSent the zero time, revokedReason
  0, isExpired false, the OCSP response and issuer ID of the request, and the not-after
  time of the parsed certificate. Second conjunct: when control reaches the status step
  (the request passes the field check and parses, the serial is new, the count query and
  the precertificate insert are answered) and the value map has more keys than the schema
  has columns, the call fails at once with the error "too many arguments inserting row
  into certificateStatus", and the store is left as it was.
\<close>

theorem AddPrecertificate_status_row:
  "(AddPrecertificate env db (Some req) = (Inr ack, db') \<and>
    ParseCertificate env (acr_Der req) = Inr parsed \<and>
    certStatusFields env = statusColumns \<longrightarrow>
      certificateStatus db' = certificateStatus db @
        [[(''serial'', VStr (SerialToString env (SerialNumber parsed))),
          (''status'', VStr ''good''),
          (''ocspLastUpdated'', VTime (clk_Now env)),
          (''revokedDate'', VTime zeroTime),
          (''revokedReason'', VInt 0),
          (''lastExpirationNagSent'', VTime zeroTime),
          (''ocspResponse'', VBytes (acr_Ocsp req)),
          (''notAfter'', VTime (NotAfter parsed)),
          (''isExpired'', VBool False),
          (''issuerID'', VInt (sint (acr_IssuerID req)))]]) \<and>
   (requiredPresent req \<and> ParseCertificate env (acr_Der req) = Inr parsed \<and>
    fault env SelectPrecertCount = None \<and>
    \<not> list_ex (\<lambda>r. pc_Serial r = SerialToString env (SerialNumber parsed)) (precertificates db) \<and>
    fault env InsertPrecert = None \<and>
    length (certStatusArgs env req parsed (SerialToString env (SerialNumber parsed))) >
      length (certStatusFields env) \<longrightarrow>
      AddPrecertificate env db (Some req) =
        (Inl (Errorf ''too many arguments inserting row into certificateStatus'' []), db))"
proof (intro conjI impI)
  assume a: "AddPrecertificate env db (Some req) = (Inr ack, db') \<and>
    ParseCertificate env (acr_Der req) = Inr parsed \<and>
    certStatusFields env = statusColumns"
  then have run: "AddPrecertificate env db (Some req) = (Inr ack, db')"
    and p: "ParseCertificate env (acr_Der req) = Inr parsed"
    and cols: "certStatusFields env = statusColumns"
    by blast+
  from AddPrecertificate_Inr [OF run] p have
    tx: "AddPrecertificate_tx env req parsed (SerialToString env (SerialNumber parsed))
             (newPrecert env req parsed) db = Inr db'"
    by auto
  from AddPrecertificate_tx_Inr [OF tx] have
    "certificateStatus db' = certificateStatus db @
       [statusRow env req parsed (SerialToString env (SerialNumber parsed))]"
    by simp
  then show "certificateStatus db' = certificateStatus db @
        [[(''serial'', VStr (SerialToString env (SerialNumber parsed))),
          (''status'', VStr ''good''),
          (''ocspLastUpdated'', VTime (clk_Now env)),
          (''revokedDate'', VTime zeroTime),
          (''revokedReason'', VInt 0),
          (''lastExpirationNagSent'', VTime zeroTime),
          (''ocspResponse'', VBytes (acr_Ocsp req)),
          (''notAfter'', VTime (NotAfter parsed)),
          (''isExpired'', VBool False),
          (''issuerID'', VInt (sint (acr_IssuerID req)))]]"
    by (simp add: statusRow_statusColumns [OF cols])
next
  assume "requiredPresent req \<and> ParseCertificate env (acr_Der req) = Inr parsed \<and>
    fault env SelectPrecertCount = None \<and>
    \<not> list_ex (\<lambda>r. pc_Serial r = SerialToString env (SerialNumber parsed)) (precertificates db) \<and>
    fault env InsertPrecert = None \<and>
    length (certStatusArgs env req parsed (SerialToString env (SerialNumber parsed))) >
      length (certStatusFields env)"
  then show "AddPrecertificate env db (Some req) =
        (Inl (Errorf ''too many arguments inserting row into certificateStatus'' []), db)"
    by (simp add: too_many_arguments)
qed

text \<open>
  The status row of \<open>certA\<close>; and the same issuance against a schema of two columns, where
  the ten arguments are too many.
\<close>

theorem AddPrecertificate_status_row_witness:
  "AddPrecertificate env0 emptyStore (Some reqA) = (Inr Empty, storeA) \<and>
   certificateStatus storeA =
     [[(''serial'', VStr ''00000000000000000000000000000000000a''),
       (''status'', VStr ''good''),
       (''ocspLastUpdated'', VTime 1700000000500000000),
       (''revokedDate'', VTime zeroTime),
       (''revokedReason'', VInt 0),
       (''lastExpirationNagSent'', VTime zeroTime),
       (''ocspResponse'', VBytes [9, 9]),
       (''notAfter'', VTime 1707776000000000000),
       (''isExpired'', VBool False),
       (''issuerID'', VInt 3)]] \<and>
   length (certStatusFields envShort) = 2 \<and>
   AddPrecertificate envShort emptyStore (Some reqA) =
     (Inl (Errorf ''too many arguments inserting row into certificateStatus'' []), emptyStore)"
proof -
  have h: "AddPrecertificate env0 emptyStore (Some reqA) = (Inr Empty, storeA) \<and>
      ParseCertificate env0 (acr_Der reqA) = Inr certA \<and>
      certStatusFields env0 = statusColumns"
    by (simp add: run_reqA) (simp add: demo_defs)
  have k: "requiredPresent reqA \<and> ParseCertificate envShort (acr_Der reqA) = Inr certA \<and>
      fault envShort SelectPrecertCount = None \<and>
      \<not> list_ex (\<lambda>r. pc_Serial r = SerialToString envShort (SerialNumber certA))
          (precertificates emptyStore) \<and>
      fault envShort InsertPrecert = None \<and>
      length (certStatusArgs envShort reqA certA (SerialToString envShort (SerialNumber certA))) >
        length (certStatusFields envShort)"
    by (simp add: op_defs demo_defs)
  from AddPrecertificate_status_row [THEN conjunct1, rule_format, OF h]
  have a: "certificateStatus storeA =
     [[(''serial'', VStr ''00000000000000000000000000000000000a''),
       (''status'', VStr ''good''),
       (''ocspLastUpdated'', VTime 1700000000500000000),
       (''revokedDate'', VTime zeroTime),
       (''revokedReason'', VInt 0),
       (''lastExpirationNagSent'', VTime zeroTime),
       (''ocspResponse'', VBytes [9, 9]),
       (''notAfter'', VTime 1707776000000000000),
       (''isExpired'', VBool False),
       (''issuerID'', VInt 3)]]"
    by (simp add: demo_defs)
  from AddPrecertificate_status_row [THEN conjunct2, rule_format, OF k]
  have b: "AddPrecertificate envShort emptyStore (Some reqA) =
     (Inl (Errorf ''too many arguments inserting row into certificateStatus'' []), emptyStore)" .
  from a b h show ?thesis by (simp add: demo_defs)
qed

subsection \<open>C9: a nil request to GetPrecertificate\<close>

text \<open>
  Claim C9. \<^verbatim>\<open>GetPrecertificate\<close> called with a nil request returns IncompleteRequest, the
  request is not dereferenced, and the result is the same as for a request with an empty
  serial.
\<close>

theorem GetPrecertificate_nil_request:
  "GetPrecertificate env db None = Inl errIncompleteRequest \<and>
   GetPrecertificate env db None = GetPrecertificate env db (Some \<lparr>sr_Serial = []\<rparr>)"
  by (simp add: GetPrecertificate_def)

text \<open>The nil request against the store that holds \<open>certA\<close>.\<close>

theorem GetPrecertificate_nil_request_witness:
  "GetPrecertificate env0 storeA None = Inl errIncompleteRequest"
  using GetPrecertificate_nil_request [of env0 storeA] by simp

subsection \<open>C10: ocspLastUpdated comes from the clock\<close>

text \<open>
  Claim C10. On every successful call (the schema having the column), the ocspLastUpdated
  field of the seeded status row is the time of the store's clock, while the issued time
  of the stored Precertificate is the caller's issuance timestamp; so the two differ
  whenever the clock and the caller's timestamp do.
\<close>

theorem AddPrecertificate_ocspLastUpdated:
  "AddPrecertificate env db (Some req) = (Inr ack, db') \<and>
   ''ocspLastUpdated'' \<in> set (certStatusFields env) \<longrightarrow>
     (\<exists>row pc.
        certificateStatus db' = certificateStatus db @ [row] \<and>
        map_of row ''ocspLastUpdated'' = Some (VTime (clk_Now env)) \<and>
        precertificates db' = precertificates db @ [pc] \<and>
        pc_Issued pc = time_Unix 0 (acr_Issued req) \<and>
        (clk_Now env \<noteq> time_Unix 0 (acr_Issued req) \<longrightarrow>
           map_of row ''ocspLastUpdated'' \<noteq> Some (VTime (pc_Issued pc))))"
proof
  assume a: "AddPrecertificate env db (Some req) = (Inr ack, db') \<and>
   ''ocspLastUpdated'' \<in> set (certStatusFields env)"
  then have run: "AddPrecertificate env db (Some req) = (Inr ack, db')"
    and col: "''ocspLastUpdated'' \<in> set (certStatusFields env)"
    by blast+
  from AddPrecertificate_Inr [OF run] obtain parsed where
    tx: "AddPrecertificate_tx env req parsed (SerialToString env (SerialNumber parsed))
             (newPrecert env req parsed) db = Inr db'"
    by auto
  let ?row = "statusRow env req parsed (SerialToString env (SerialNumber parsed))"
  let ?pc = "newPrecert env req parsed"
  from AddPrecertificate_tx_Inr [OF tx] have
    st: "certificateStatus db' = certificateStatus db @ [?row]"
    and pcs: "precertificates db' = precertificates db @ [?pc]"
    by simp_all
  have upd: "map_of ?row ''ocspLastUpdated'' = Some (VTime (clk_Now env))"
    by (rule statusRow_ocspLastUpdated [OF col])
  have iss: "pc_Issued ?pc = time_Unix 0 (acr_Issued req)"
    by (simp add: newPrecert_def)
  from st pcs upd iss show "\<exists>row pc.
        certificateStatus db' = certificateStatus db @ [row] \<and>
        map_of row ''ocspLastUpdated'' = Some (VTime (clk_Now env)) \<and>
        precertificates db' = precertificates db @ [pc] \<and>
        pc_Issued pc = time_Unix 0 (acr_Issued req) \<and>
        (clk_Now env \<noteq> time_Unix 0 (acr_Issued req) \<longrightarrow>
           map_of row ''ocspLastUpdated'' \<noteq> Some (VTime (pc_Issued pc)))"
    by (intro exI [of _ ?row] exI [of _ ?pc]) simp
qed

text \<open>
  For \<open>certA\<close> the clock stands half a second after the issuance timestamp of the request:
  the status row carries the clock's time, the Precertificate the request's.
\<close>

theorem AddPrecertificate_ocspLastUpdated_witness:
  "AddPrecertificate env0 emptyStore (Some reqA) = (Inr Empty, storeA) \<and>
   clk_Now env0 = 1700000000500000000 \<and>
   map (\<lambda>row. map_of row ''ocspLastUpdated'') (certificateStatus storeA) =
     [Some (VTime 1700000000500000000)] \<and>
   map pc_Issued (precertificates storeA) = [1700000000000000000]"
proof -
  have h: "AddPrecertificate env0 emptyStore (Some reqA) = (Inr Empty, storeA) \<and>
      ''ocspLastUpdated'' \<in> set (certStatusFields env0)"
    by (simp add: run_reqA) (simp add: demo_defs)
  from AddPrecertificate_ocspLastUpdated [rule_format, OF h] obtain row pc where
    "certificateStatus storeA = certificateStatus emptyStore @ [row]"
    "map_of row ''ocspLastUpdated'' = Some (VTime (clk_Now env0))"
    "precertificates storeA = precertificates emptyStore @ [pc]"
    "pc_Issued pc = time_Unix 0 (acr_Issued reqA)"
    by blast
  with h show ?thesis
    by (simp add: emptyStore_def env0_def reqA_def time_Unix_def)
qed

end
